theory Spec2Isabelle
  imports Complex_Main "HOL-Library.Word"
begin

section \<open>Bytes, buffers and results\<close>

text \<open>
  The parser works on a borrowed byte buffer. A buffer is a list of bytes, a pointer
  into it is an offset (\<open>NULL\<close> is \<open>None\<close> where the code tests a pointer). An
  unsigned C integer is the natural number it denotes; where the code's arithmetic is
  done in 32 bits the wrap-around is written out.

  A function that returns \<open>false\<close> returns \<open>Inl Fail\<close>. A read outside the buffer,
  which the C code would perform unchecked, is \<open>Inl OutOfBounds\<close>; an operation
  that is undefined in C (a float to int conversion out of range, a signed overflow) is
  \<open>Inl Undefined\<close>; a float operation whose result is an infinity or a NaN is
  \<open>Inl NotFinite\<close>.
\<close>

type_synonym byte = "8 word"

datatype error = Fail | OutOfBounds | Undefined | NotFinite

definition make_signature :: "char \<Rightarrow> char \<Rightarrow> char \<Rightarrow> char \<Rightarrow> nat" where
  "make_signature a b c d =
     of_char a * 2 ^ 24 + of_char b * 2 ^ 16 + of_char c * 2 ^ 8 + of_char d"

definition read_u8 :: "byte list \<Rightarrow> nat \<Rightarrow> error + nat" where
  "read_u8 mem p = (if p < length mem then Inr (unat (mem ! p)) else Inl OutOfBounds)"

definition read_big_u16 :: "byte list \<Rightarrow> nat \<Rightarrow> error + nat" where
  "read_big_u16 mem p =
     (if p + 2 \<le> length mem
      then Inr (unat (mem ! p) * 2 ^ 8 + unat (mem ! (p + 1)))
      else Inl OutOfBounds)"

definition read_big_u32 :: "byte list \<Rightarrow> nat \<Rightarrow> error + nat" where
  "read_big_u32 mem p =
     (if p + 4 \<le> length mem
      then Inr (unat (mem ! p) * 2 ^ 24 + unat (mem ! (p + 1)) * 2 ^ 16
                + unat (mem ! (p + 2)) * 2 ^ 8 + unat (mem ! (p + 3)))
      else Inl OutOfBounds)"

text \<open>The cast \<open>(int32_t)\<close> of a 32-bit unsigned value: two's complement.\<close>

definition to_i32 :: "nat \<Rightarrow> int" where
  "to_i32 u = (if u < 2 ^ 31 then int u else int u - 2 ^ 32)"

definition read_big_i32 :: "byte list \<Rightarrow> nat \<Rightarrow> error + int" where
  "read_big_i32 mem p =
     (case read_big_u32 mem p of Inl e \<Rightarrow> Inl e | Inr u \<Rightarrow> Inr (to_i32 u))"

definition read_big_u64 :: "byte list \<Rightarrow> nat \<Rightarrow> error + nat" where
  "read_big_u64 mem p =
     (case read_big_u32 mem p of Inl e \<Rightarrow> Inl e
      | Inr hi \<Rightarrow>
        (case read_big_u32 mem (p + 4) of Inl e \<Rightarrow> Inl e
         | Inr lo \<Rightarrow> Inr (hi * 2 ^ 32 + lo)))"

section \<open>Single precision arithmetic\<close>

text \<open>
  A \<open>float\<close> of the code is modelled by the real number it denotes. Every
  operation computes the exact result and rounds it to the nearest binary32 value, ties
  to even (the default rounding mode, with float expressions evaluated in float). The
  model covers the finite values: the two zeros are one value, and infinities and NaN
  are not values. The operations of the decoders and of the table evaluator on
  arguments in \<open>[0, 1]\<close> stay below \<open>2 ^ 33\<close>, far from the largest finite float.
\<close>

type_synonym float = real

fun log2_nat :: "nat \<Rightarrow> nat" where
  "log2_nat n = (if n < 2 then 0 else Suc (log2_nat (n div 2)))"

declare log2_nat.simps [simp del]

text \<open>The binary exponent of a non-zero number: \<open>\<lfloor>log\<^sub>2 \<bar>x\<bar>\<rfloor>\<close>.\<close>

definition ilog2 :: "real \<Rightarrow> int" where
  "ilog2 x =
     (if 1 \<le> \<bar>x\<bar> then int (log2_nat (nat \<lfloor>\<bar>x\<bar>\<rfloor>))
      else - int (log2_nat (nat (\<lceil>1 / \<bar>x\<bar>\<rceil> - 1))) - 1)"

text \<open>Rounding to the nearest integer, ties to the even one.\<close>

definition rne :: "real \<Rightarrow> int" where
  "rne y =
     (let f = \<lfloor>y\<rfloor>; r = y - of_int f
      in if r < 1 / 2 then f else if 1 / 2 < r then f + 1
         else if even f then f else f + 1)"

text \<open>
  The spacing of the binary32 values around \<open>x\<close>: 24 significant bits for a normal
  value, \<open>2\<^sup>-\<^sup>1\<^sup>4\<^sup>9\<close> below the smallest normal value \<open>2\<^sup>-\<^sup>1\<^sup>2\<^sup>6\<close>.
\<close>

definition f32_ulp :: "real \<Rightarrow> real" where
  "f32_ulp x = 2 powi (max (ilog2 x) (- 126) - 23)"

definition f32_round :: "real \<Rightarrow> float" where
  "f32_round x = (if x = 0 then 0 else of_int (rne (x / f32_ulp x)) * f32_ulp x)"

definition f32_of_int :: "int \<Rightarrow> float" where
  "f32_of_int i = f32_round (of_int i)"

definition f32_add :: "float \<Rightarrow> float \<Rightarrow> float" where
  "f32_add x y = f32_round (x + y)"

definition f32_sub :: "float \<Rightarrow> float \<Rightarrow> float" where
  "f32_sub x y = f32_round (x - y)"

definition f32_mul :: "float \<Rightarrow> float \<Rightarrow> float" where
  "f32_mul x y = f32_round (x * y)"

text \<open>Division; the divisor is not zero wherever the model uses it.\<close>

definition f32_div :: "float \<Rightarrow> float \<Rightarrow> float" where
  "f32_div x y = f32_round (x / y)"

text \<open>The cast \<open>(int)x\<close>: truncation towards zero, undefined outside the range of int.\<close>

definition f32_to_int :: "float \<Rightarrow> error + int" where
  "f32_to_int x =
     (let i = (if 0 \<le> x then \<lfloor>x\<rfloor> else \<lceil>x\<rceil>)
      in if - (2 ^ 31) \<le> i \<and> i < 2 ^ 31 then Inr i else Inl Undefined)"

text \<open>The largest binary32 value below a positive binary32 value.\<close>

definition f32_pred :: "float \<Rightarrow> float" where
  "f32_pred x =
     (let e = ilog2 x
      in if x = 2 powi e \<and> - 126 < e then x - 2 powi (e - 24)
         else x - 2 powi (max e (- 126) - 23))"

text \<open>
  \<open>minus_1_ulp\<close> subtracts 1 from the bit pattern of a float read as a signed 32-bit
  integer. For a positive float that is the next float below it; for a negative float
  it is the next float towards zero. At zero the result is a NaN or a signed overflow.
\<close>

definition minus_1_ulp :: "float \<Rightarrow> error + float" where
  "minus_1_ulp x =
     (if 0 < x then Inr (f32_pred x)
      else if x < 0 then Inr (- f32_pred (- x))
      else Inl Undefined)"

text \<open>
  Modelled from the spec: \<open>fmaxf_\<close> and \<open>fminf_\<close> of PortableMath.h, which is
  not part of these sources (a trailing underscore is not a name here); the spec
  names their composition \<open>clamp(x, 0, 1)\<close>.
\<close>

definition fmaxf :: "float \<Rightarrow> float \<Rightarrow> float" where
  "fmaxf x y = (if x > y then x else y)"

definition fminf :: "float \<Rightarrow> float \<Rightarrow> float" where
  "fminf x y = (if x < y then x else y)"

section \<open>Sequencing fallible steps\<close>

definition bindE :: "error + 'a \<Rightarrow> ('a \<Rightarrow> error + 'b) \<Rightarrow> error + 'b" where
  "bindE m f = (case m of Inl e \<Rightarrow> Inl e | Inr x \<Rightarrow> f x)"

text \<open>
  \<open>read_big_fixed\<close>: a signed 15.16 value, the 32-bit integer converted to float and
  multiplied by the constant \<open>1.0f / 65536.0f\<close>.
\<close>

definition read_big_fixed :: "byte list \<Rightarrow> nat \<Rightarrow> error + float" where
  "read_big_fixed mem p =
     bindE (read_big_i32 mem p) (\<lambda>i. Inr (f32_mul (f32_of_int i) (f32_div 1 65536)))"

section \<open>Curves\<close>

text \<open>
  The seven coefficients of a parametric curve and the curve itself: a table of 8-bit
  or of 16-bit entries borrowed from the buffer, or a parametric curve when
  \<open>table_entries\<close> is 0.
\<close>

record skcms_TransferFunction =
  tf_g :: float
  tf_a :: float
  tf_b :: float
  tf_c :: float
  tf_d :: float
  tf_e :: float
  tf_f :: float

record skcms_Curve =
  table_8 :: "nat option"
  table_16 :: "nat option"
  table_entries :: nat
  curve_parametric :: skcms_TransferFunction

section \<open>Tags and curve payloads\<close>

text \<open>
  A tag handle: signature, type (the first four bytes of the payload), size, and the
  pointer to the payload, an offset into the profile's buffer.
\<close>

record skcms_ICCTag =
  tag_signature :: nat
  tag_type :: nat
  tag_size :: nat
  tag_buf :: nat

text \<open>
  Modelled from the spec: \<open>SAFE_SIZEOF\<close> of Macros.h, which is not part of these
  sources, gives the size of a layout as a 64-bit value, so that the sums and products
  it takes part in are computed in 64 bits and cannot wrap for 32-bit operands
  (``arithmetic in a wider width to prevent overflow''). The sizes of the layouts are
  those of their byte arrays; a trailing flexible array adds nothing.
\<close>

definition sizeof_header_Layout :: nat where "sizeof_header_Layout = 132"
definition sizeof_tag_Layout :: nat where "sizeof_tag_Layout = 12"
definition sizeof_XYZ_Layout :: nat where "sizeof_XYZ_Layout = 20"
definition sizeof_para_Layout :: nat where "sizeof_para_Layout = 12"
definition sizeof_curv_Layout :: nat where "sizeof_curv_Layout = 12"
definition sizeof_mft1_Layout :: nat where "sizeof_mft1_Layout = 48"
definition sizeof_mft2_Layout :: nat where "sizeof_mft2_Layout = 52"
definition sizeof_mAB_Layout :: nat where "sizeof_mAB_Layout = 32"
definition sizeof_mABCLUT_Layout :: nat where "sizeof_mABCLUT_Layout = 20"

definition UINT32_MAX :: nat where
  "UINT32_MAX = 2 ^ 32 - 1"

definition para_curve :: "skcms_TransferFunction \<Rightarrow> skcms_Curve" where
  "para_curve tf =
     \<lparr>table_8 = None, table_16 = None, table_entries = 0, curve_parametric = tf\<rparr>"

definition curve_bytes :: "nat list" where
  "curve_bytes = [4, 12, 16, 20, 28]"

text \<open>
  \<open>read_curve_para\<close>. The result is the curve and the number of bytes it uses
  (\<open>*curve_size\<close>). The function types: kG = 0, kGAB = 1, kGABC = 2, kGABCD = 3,
  kGABCDEF = 4.
\<close>

definition read_curve_para :: "byte list \<Rightarrow> nat \<Rightarrow> nat \<Rightarrow> error + skcms_Curve \<times> nat" where
  "read_curve_para mem buf sz =
     (if sz < sizeof_para_Layout then Inl Fail
      else bindE (read_big_u16 mem (buf + 8)) (\<lambda>function_type.
        if function_type > 4 then Inl Fail
        else if sz < sizeof_para_Layout + curve_bytes ! function_type then Inl Fail
        else
          let curve_size = sizeof_para_Layout + curve_bytes ! function_type;
              parameters = buf + 12
          in bindE (read_big_fixed mem parameters) (\<lambda>g.
             let tf = \<lparr>tf_g = g, tf_a = 1, tf_b = 0, tf_c = 0, tf_d = 0, tf_e = 0, tf_f = 0\<rparr>
             in if function_type = 1 then
                  bindE (read_big_fixed mem (parameters + 4)) (\<lambda>a.
                  bindE (read_big_fixed mem (parameters + 8)) (\<lambda>b.
                    if a = 0 then Inl Fail
                    else Inr (para_curve (tf\<lparr>tf_a := a, tf_b := b, tf_d := f32_div (- b) a\<rparr>),
                              curve_size)))
                else if function_type = 2 then
                  bindE (read_big_fixed mem (parameters + 4)) (\<lambda>a.
                  bindE (read_big_fixed mem (parameters + 8)) (\<lambda>b.
                  bindE (read_big_fixed mem (parameters + 12)) (\<lambda>e.
                    if a = 0 then Inl Fail
                    else Inr (para_curve (tf\<lparr>tf_a := a, tf_b := b, tf_e := e,
                                              tf_d := f32_div (- b) a, tf_f := e\<rparr>),
                              curve_size))))
                else if function_type = 3 then
                  bindE (read_big_fixed mem (parameters + 4)) (\<lambda>a.
                  bindE (read_big_fixed mem (parameters + 8)) (\<lambda>b.
                  bindE (read_big_fixed mem (parameters + 12)) (\<lambda>c.
                  bindE (read_big_fixed mem (parameters + 16)) (\<lambda>d.
                    Inr (para_curve (tf\<lparr>tf_a := a, tf_b := b, tf_c := c, tf_d := d\<rparr>),
                         curve_size)))))
                else if function_type = 4 then
                  bindE (read_big_fixed mem (parameters + 4)) (\<lambda>a.
                  bindE (read_big_fixed mem (parameters + 8)) (\<lambda>b.
                  bindE (read_big_fixed mem (parameters + 12)) (\<lambda>c.
                  bindE (read_big_fixed mem (parameters + 16)) (\<lambda>d.
                  bindE (read_big_fixed mem (parameters + 20)) (\<lambda>e.
                  bindE (read_big_fixed mem (parameters + 24)) (\<lambda>f.
                    Inr (para_curve (tf\<lparr>tf_a := a, tf_b := b, tf_c := c, tf_d := d,
                                         tf_e := e, tf_f := f\<rparr>),
                         curve_size)))))))
                else Inr (para_curve tf, curve_size))))"

text \<open>
  \<open>read_curve_curv\<close>. The size test is done in 64 bits; \<open>*curve_size\<close> is a
  32-bit location. A table of one entry is a gamma: the 16-bit value converted to float
  and multiplied by the constant \<open>1.0f / 256.0f\<close>.
\<close>

definition read_curve_curv :: "byte list \<Rightarrow> nat \<Rightarrow> nat \<Rightarrow> error + skcms_Curve \<times> nat" where
  "read_curve_curv mem buf sz =
     (if sz < sizeof_curv_Layout then Inl Fail
      else bindE (read_big_u32 mem (buf + 8)) (\<lambda>value_count.
        if sz < sizeof_curv_Layout + value_count * 2 then Inl Fail
        else
          let curve_size = (sizeof_curv_Layout + value_count * 2) mod 2 ^ 32;
              parameters = buf + 12;
              tf = \<lparr>tf_g = 0, tf_a = 1, tf_b = 0, tf_c = 0, tf_d = 0, tf_e = 0, tf_f = 0\<rparr>
          in if value_count < 2 then
               (if value_count = 0 then Inr (para_curve (tf\<lparr>tf_g := 1\<rparr>), curve_size)
                else bindE (read_big_u16 mem parameters) (\<lambda>v.
                  Inr (para_curve (tf\<lparr>tf_g := f32_mul (f32_of_int (int v)) (f32_div 1 256)\<rparr>),
                       curve_size)))
             else Inr (\<lparr>table_8 = None, table_16 = Some parameters,
                        table_entries = value_count,
                        curve_parametric =
                          \<lparr>tf_g = 0, tf_a = 0, tf_b = 0, tf_c = 0, tf_d = 0, tf_e = 0,
                           tf_f = 0\<rparr>\<rparr>,
                       curve_size)))"

text \<open>
  \<open>read_curve\<close>: at most \<open>size\<close> bytes from \<open>buf\<close> are meant to be read. The
  pointers \<open>buf\<close> and \<open>curve\<close> are never null where the parser calls it.
\<close>

definition read_curve :: "byte list \<Rightarrow> nat \<Rightarrow> nat \<Rightarrow> error + skcms_Curve \<times> nat" where
  "read_curve mem buf sz =
     (if sz < 4 then Inl Fail
      else bindE (read_big_u32 mem buf) (\<lambda>type.
        if type = make_signature CHR ''p'' CHR ''a'' CHR ''r'' CHR ''a''
        then read_curve_para mem buf sz
        else if type = make_signature CHR ''c'' CHR ''u'' CHR ''r'' CHR ''v''
        then read_curve_curv mem buf sz
        else Inl Fail))"

section \<open>The profile and its tag directory\<close>

record skcms_ICCDateTime =
  year :: nat
  month :: nat
  day :: nat
  hour :: nat
  minute :: nat
  second :: nat

text \<open>
  The A2B record. \<open>grid_8\<close> and \<open>grid_16\<close> point into the buffer; the arrays
  hold four input curves, four grid sizes, three matrix curves, a 3 by 4 matrix and
  three output curves.
\<close>

record skcms_A2B =
  input_channels :: nat
  input_curves :: "skcms_Curve list"
  grid_points :: "nat list"
  grid_8 :: "nat option"
  grid_16 :: "nat option"
  matrix_channels :: nat
  matrix_curves :: "skcms_Curve list"
  a2b_matrix :: "float list list"
  output_channels :: nat
  output_curves :: "skcms_Curve list"

record skcms_ICCProfile =
  buffer :: "byte list option"
  profile_size :: nat
  cmm_type :: nat
  version :: nat
  profile_class :: nat
  data_color_space :: nat
  pcs :: nat
  creation_date_time :: skcms_ICCDateTime
  profile_signature :: nat
  platform :: nat
  flags :: nat
  device_manufacturer :: nat
  device_model :: nat
  device_attributes :: nat
  rendering_intent :: nat
  illuminant_X :: float
  illuminant_Y :: float
  illuminant_Z :: float
  creator :: nat
  profile_id :: "byte list"
  tag_count :: nat
  has_trc :: bool
  trc :: "skcms_Curve list"
  has_toXYZD50 :: bool
  toXYZD50 :: "float list list"
  has_A2B :: bool
  A2B :: skcms_A2B

text \<open>The record after \<open>memset(profile, 0, sizeof(*profile))\<close>.\<close>

definition zero_tf :: skcms_TransferFunction where
  "zero_tf = \<lparr>tf_g = 0, tf_a = 0, tf_b = 0, tf_c = 0, tf_d = 0, tf_e = 0, tf_f = 0\<rparr>"

definition zero_curve :: skcms_Curve where
  "zero_curve =
     \<lparr>table_8 = None, table_16 = None, table_entries = 0, curve_parametric = zero_tf\<rparr>"

definition zero_A2B :: skcms_A2B where
  "zero_A2B =
     \<lparr>input_channels = 0,
      input_curves = [zero_curve, zero_curve, zero_curve, zero_curve],
      grid_points = [0, 0, 0, 0], grid_8 = None, grid_16 = None,
      matrix_channels = 0, matrix_curves = [zero_curve, zero_curve, zero_curve],
      a2b_matrix = [[0, 0, 0, 0], [0, 0, 0, 0], [0, 0, 0, 0]],
      output_channels = 0, output_curves = [zero_curve, zero_curve, zero_curve]\<rparr>"

definition zero_profile :: skcms_ICCProfile where
  "zero_profile =
     \<lparr>buffer = None, profile_size = 0, cmm_type = 0, version = 0, profile_class = 0,
      data_color_space = 0, pcs = 0,
      creation_date_time =
        \<lparr>year = 0, month = 0, day = 0, hour = 0, minute = 0, second = 0\<rparr>,
      profile_signature = 0, platform = 0, flags = 0, device_manufacturer = 0,
      device_model = 0, device_attributes = 0, rendering_intent = 0,
      illuminant_X = 0, illuminant_Y = 0, illuminant_Z = 0, creator = 0,
      profile_id = replicate 16 0, tag_count = 0,
      has_trc = False, trc = [zero_curve, zero_curve, zero_curve],
      has_toXYZD50 = False, toXYZD50 = [[0, 0, 0], [0, 0, 0], [0, 0, 0]],
      has_A2B = False, A2B = zero_A2B\<rparr>"

text \<open>The assignment \<open>m.vals[i][j] = v\<close>.\<close>

definition set_val :: "float list list \<Rightarrow> nat \<Rightarrow> nat \<Rightarrow> float \<Rightarrow> float list list" where
  "set_val m i j v = m[i := (m ! i)[j := v]]"

text \<open>
  \<open>get_tag_table\<close>: the directory starts behind the header; entry \<open>i\<close> holds the
  signature, the offset and the size of a tag, four bytes each.
\<close>

definition get_tag_table :: nat where
  "get_tag_table = sizeof_header_Layout"

definition tag_entry :: "nat \<Rightarrow> nat" where
  "tag_entry i = get_tag_table + i * sizeof_tag_Layout"

text \<open>
  The body shared by the two lookups: the handle of directory entry \<open>i\<close>, with the
  signature \<open>sig\<close>. The type is read through the pointer just computed.
\<close>

definition fill_tag :: "byte list \<Rightarrow> nat \<Rightarrow> nat \<Rightarrow> error + skcms_ICCTag" where
  "fill_tag mem i sig =
     bindE (read_big_u32 mem (tag_entry i + 8)) (\<lambda>sz.
     bindE (read_big_u32 mem (tag_entry i + 4)) (\<lambda>off.
     bindE (read_big_u32 mem off) (\<lambda>type.
       Inr \<lparr>tag_signature = sig, tag_type = type, tag_size = sz, tag_buf = off\<rparr>)))"

text \<open>
  \<open>skcms_GetTagByIndex\<close> (and \<open>skcms_ICCProfile_getTagByIndex\<close>, the same code in
  the older file). It returns nothing; the result is the content of \<open>*tag\<close>
  afterwards. A null profile, buffer or tag, or an index above \<open>tag_count\<close>, leaves
  it as it was.
\<close>

definition skcms_GetTagByIndex ::
  "skcms_ICCProfile option \<Rightarrow> nat \<Rightarrow> skcms_ICCTag option \<Rightarrow> error + skcms_ICCTag option" where
  "skcms_GetTagByIndex profile idx tag =
     (case profile of None \<Rightarrow> Inr tag
      | Some p \<Rightarrow>
        (case buffer p of None \<Rightarrow> Inr tag
         | Some mem \<Rightarrow>
           if tag = None then Inr tag
           else if idx > tag_count p then Inr tag
           else bindE (read_big_u32 mem (tag_entry idx)) (\<lambda>sig.
                bindE (fill_tag mem idx sig) (\<lambda>t. Inr (Some t)))))"

definition skcms_ICCProfile_getTagByIndex ::
  "skcms_ICCProfile option \<Rightarrow> nat \<Rightarrow> skcms_ICCTag option \<Rightarrow> error + skcms_ICCTag option" where
  "skcms_ICCProfile_getTagByIndex profile index tag =
     (case profile of None \<Rightarrow> Inr tag
      | Some p \<Rightarrow>
        (case buffer p of None \<Rightarrow> Inr tag
         | Some mem \<Rightarrow>
           if tag = None then Inr tag
           else if index > tag_count p then Inr tag
           else bindE (read_big_u32 mem (tag_entry index)) (\<lambda>sig.
                bindE (fill_tag mem index sig) (\<lambda>t. Inr (Some t)))))"

text \<open>
  The loop of \<open>skcms_GetTagBySignature\<close>, from entry \<open>i\<close> with \<open>n\<close> entries
  left: the first entry with the signature, or \<open>None\<close> (the function returns false).
\<close>

fun find_tag :: "byte list \<Rightarrow> nat \<Rightarrow> nat \<Rightarrow> nat \<Rightarrow> error + skcms_ICCTag option" where
  "find_tag mem sig i 0 = Inr None"
| "find_tag mem sig i (Suc n) =
     bindE (read_big_u32 mem (tag_entry i)) (\<lambda>s.
       if s = sig then bindE (fill_tag mem i sig) (\<lambda>t. Inr (Some t))
       else find_tag mem sig (Suc i) n)"

definition skcms_GetTagBySignature ::
  "skcms_ICCProfile \<Rightarrow> nat \<Rightarrow> error + skcms_ICCTag option" where
  "skcms_GetTagBySignature p sig =
     (case buffer p of None \<Rightarrow> Inr None
      | Some mem \<Rightarrow> find_tag mem sig 0 (tag_count p))"

section \<open>XYZ tags\<close>

definition read_tag_xyz :: "byte list \<Rightarrow> skcms_ICCTag \<Rightarrow> error + float \<times> float \<times> float" where
  "read_tag_xyz mem tag =
     (if tag_type tag \<noteq> make_signature CHR ''X'' CHR ''Y'' CHR ''Z'' CHR '' '' then Inl Fail
      else if tag_size tag < sizeof_XYZ_Layout then Inl Fail
      else bindE (read_big_fixed mem (tag_buf tag + 8)) (\<lambda>x.
           bindE (read_big_fixed mem (tag_buf tag + 12)) (\<lambda>y.
           bindE (read_big_fixed mem (tag_buf tag + 16)) (\<lambda>z. Inr (x, y, z)))))"

text \<open>Column \<open>j\<close> of the matrix from one tag.\<close>

definition set_column :: "float list list \<Rightarrow> nat \<Rightarrow> float \<times> float \<times> float \<Rightarrow> float list list" where
  "set_column m j v =
     (case v of (x, y, z) \<Rightarrow> set_val (set_val (set_val m 0 j x) 1 j y) 2 j z)"

definition read_to_XYZD50 ::
  "byte list \<Rightarrow> skcms_ICCTag \<Rightarrow> skcms_ICCTag \<Rightarrow> skcms_ICCTag \<Rightarrow> float list list
     \<Rightarrow> error + float list list" where
  "read_to_XYZD50 mem rXYZ gXYZ bXYZ toXYZ =
     bindE (read_tag_xyz mem rXYZ) (\<lambda>r.
     bindE (read_tag_xyz mem gXYZ) (\<lambda>g.
     bindE (read_tag_xyz mem bXYZ) (\<lambda>b.
       Inr (set_column (set_column (set_column toXYZ 0 r) 1 g) 2 b))))"

section \<open>A2B tags\<close>

text \<open>
  \<open>read_mft_common\<close>, on the layout at \<open>mftTag\<close>. The record has three output
  curves and four input curves (\<open>ARRAY_COUNT\<close>).
\<close>

definition read_mft_common :: "byte list \<Rightarrow> nat \<Rightarrow> skcms_A2B \<Rightarrow> error + skcms_A2B" where
  "read_mft_common mem mftTag a2b =
     bindE (read_u8 mem (mftTag + 8)) (\<lambda>ic.
     bindE (read_u8 mem (mftTag + 9)) (\<lambda>oc.
       let a = a2b\<lparr>matrix_channels := 0, input_channels := ic, output_channels := oc\<rparr>
       in if output_channels a \<noteq> 3 then Inl Fail
          else if input_channels a < 1 \<or> input_channels a > 4 then Inl Fail
          else bindE (read_u8 mem (mftTag + 10)) (\<lambda>gp.
            let a' = a\<lparr>grid_points :=
                        fold (\<lambda>i g. g[i := gp]) [0 ..< input_channels a] (grid_points a)\<rparr>
            in if grid_points a' ! 0 < 2 then Inl Fail else Inr a')))"

text \<open>
  The table of curve \<open>i\<close> of a stage: \<open>table_entries\<close> and the two table pointers
  are assigned, the rest of the curve is left as it is.
\<close>

definition set_table :: "nat \<Rightarrow> nat \<Rightarrow> nat \<Rightarrow> skcms_Curve \<Rightarrow> skcms_Curve" where
  "set_table byte_width entries ptr c =
     (if byte_width = 1
      then c\<lparr>table_entries := entries, table_8 := Some ptr, table_16 := None\<rparr>
      else c\<lparr>table_entries := entries, table_8 := None, table_16 := Some ptr\<rparr>)"

definition set_tables ::
  "nat \<Rightarrow> nat \<Rightarrow> nat \<Rightarrow> nat \<Rightarrow> nat \<Rightarrow> skcms_Curve list \<Rightarrow> skcms_Curve list" where
  "set_tables n byte_width entries base byte_len curves =
     fold (\<lambda>i cs. cs[i := set_table byte_width entries (base + i * byte_len) (cs ! i)])
       [0 ..< n] curves"

text \<open>
  \<open>init_a2b_tables\<close>. The byte lengths are 32-bit products, the grid size is a 64-bit
  product, and the sum compared with \<open>max_tables_len\<close> is a 64-bit sum.
\<close>

definition init_a2b_tables ::
  "nat \<Rightarrow> nat \<Rightarrow> nat \<Rightarrow> nat \<Rightarrow> nat \<Rightarrow> skcms_A2B \<Rightarrow> error + skcms_A2B" where
  "init_a2b_tables table_base max_tables_len byte_width input_table_entries
       output_table_entries a2b =
     (let byte_len_per_input_table = (input_table_entries * byte_width) mod 2 ^ 32;
          byte_len_per_output_table = (output_table_entries * byte_width) mod 2 ^ 32;
          byte_len_all_input_tables =
            (input_channels a2b * byte_len_per_input_table) mod 2 ^ 32;
          byte_len_all_output_tables =
            (output_channels a2b * byte_len_per_output_table) mod 2 ^ 32;
          grid_size =
            fold (\<lambda>axis g. (g * (grid_points a2b ! axis)) mod 2 ^ 64)
              [0 ..< input_channels a2b] ((output_channels a2b * byte_width) mod 2 ^ 32)
      in if max_tables_len
              < (byte_len_all_input_tables + grid_size + byte_len_all_output_tables) mod 2 ^ 64
         then Inl Fail
         else
           let a1 = a2b\<lparr>input_curves :=
                      set_tables (input_channels a2b) byte_width input_table_entries
                        table_base byte_len_per_input_table (input_curves a2b)\<rparr>;
               a2 = (if byte_width = 1
                     then a1\<lparr>grid_8 := Some (table_base + byte_len_all_input_tables),
                             grid_16 := None\<rparr>
                     else a1\<lparr>grid_8 := None,
                             grid_16 := Some (table_base + byte_len_all_input_tables)\<rparr>);
               output_table_base = table_base + byte_len_all_input_tables + grid_size
           in Inr (a2\<lparr>output_curves :=
                      set_tables (output_channels a2b) byte_width output_table_entries
                        output_table_base byte_len_per_output_table (output_curves a2)\<rparr>))"

definition read_tag_mft1 :: "byte list \<Rightarrow> skcms_ICCTag \<Rightarrow> skcms_A2B \<Rightarrow> error + skcms_A2B" where
  "read_tag_mft1 mem tag a2b =
     (if tag_size tag < sizeof_mft1_Layout then Inl Fail
      else bindE (read_mft_common mem (tag_buf tag) a2b) (\<lambda>a.
        init_a2b_tables (tag_buf tag + 48) (tag_size tag - sizeof_mft1_Layout) 1 256 256 a))"

definition read_tag_mft2 :: "byte list \<Rightarrow> skcms_ICCTag \<Rightarrow> skcms_A2B \<Rightarrow> error + skcms_A2B" where
  "read_tag_mft2 mem tag a2b =
     (if tag_size tag < sizeof_mft2_Layout then Inl Fail
      else bindE (read_mft_common mem (tag_buf tag) a2b) (\<lambda>a.
           bindE (read_big_u16 mem (tag_buf tag + 48)) (\<lambda>input_table_entries.
           bindE (read_big_u16 mem (tag_buf tag + 50)) (\<lambda>output_table_entries.
             if input_table_entries < 2 \<or> input_table_entries > 4096
                \<or> output_table_entries < 2 \<or> output_table_entries > 4096
             then Inl Fail
             else init_a2b_tables (tag_buf tag + 52) (tag_size tag - sizeof_mft2_Layout) 2
                    input_table_entries output_table_entries a))))"

text \<open>
  The loop of \<open>read_curves\<close>, at curve \<open>i\<close> with \<open>n\<close> curves left. The bytes
  of a curve are rounded up to a multiple of four, \<open>(curve_bytes + 3) & ~3U\<close>; the
  new offset is computed in 64 bits and must fit 32 bits.
\<close>

fun read_curves_from ::
  "byte list \<Rightarrow> nat \<Rightarrow> nat \<Rightarrow> nat \<Rightarrow> nat \<Rightarrow> nat \<Rightarrow> skcms_Curve list
     \<Rightarrow> error + skcms_Curve list" where
  "read_curves_from mem buf sz curve_offset i 0 curves = Inr curves"
| "read_curves_from mem buf sz curve_offset i (Suc n) curves =
     (if curve_offset > sz then Inl Fail
      else bindE (read_curve mem (buf + curve_offset) (sz - curve_offset)) (\<lambda>(c, bytes).
        if bytes > UINT32_MAX - 3 then Inl Fail
        else
          let bytes4 = (bytes + 3) div 4 * 4;
              new_offset_64 = curve_offset + bytes4
          in if new_offset_64 \<noteq> new_offset_64 mod 2 ^ 32 then Inl Fail
             else read_curves_from mem buf sz (new_offset_64 mod 2 ^ 32) (Suc i) n
                    (curves[i := c])))"

definition read_curves ::
  "byte list \<Rightarrow> nat \<Rightarrow> nat \<Rightarrow> nat \<Rightarrow> nat \<Rightarrow> skcms_Curve list \<Rightarrow> error + skcms_Curve list" where
  "read_curves mem buf sz curve_offset num_curves curves =
     read_curves_from mem buf sz curve_offset 0 num_curves curves"

text \<open>The twelve values of the matrix: a row-major 3 by 3, then the fourth column.\<close>

definition read_matrix :: "byte list \<Rightarrow> nat \<Rightarrow> error + float list list" where
  "read_matrix mem mtx_buf =
     bindE (read_big_fixed mem (mtx_buf + 0)) (\<lambda>m00.
     bindE (read_big_fixed mem (mtx_buf + 4)) (\<lambda>m01.
     bindE (read_big_fixed mem (mtx_buf + 8)) (\<lambda>m02.
     bindE (read_big_fixed mem (mtx_buf + 12)) (\<lambda>m10.
     bindE (read_big_fixed mem (mtx_buf + 16)) (\<lambda>m11.
     bindE (read_big_fixed mem (mtx_buf + 20)) (\<lambda>m12.
     bindE (read_big_fixed mem (mtx_buf + 24)) (\<lambda>m20.
     bindE (read_big_fixed mem (mtx_buf + 28)) (\<lambda>m21.
     bindE (read_big_fixed mem (mtx_buf + 32)) (\<lambda>m22.
     bindE (read_big_fixed mem (mtx_buf + 36)) (\<lambda>m03.
     bindE (read_big_fixed mem (mtx_buf + 40)) (\<lambda>m13.
     bindE (read_big_fixed mem (mtx_buf + 44)) (\<lambda>m23.
       Inr [[m00, m01, m02, m03], [m10, m11, m12, m13], [m20, m21, m22, m23]]))))))))))))"

text \<open>
  The loop over the axes of the CLUT, at axis \<open>i\<close> with \<open>n\<close> axes left: the grid
  sizes read so far and the 64-bit product.
\<close>

fun read_grid_points ::
  "byte list \<Rightarrow> nat \<Rightarrow> nat \<Rightarrow> nat \<Rightarrow> nat list \<Rightarrow> nat \<Rightarrow> error + nat list \<times> nat" where
  "read_grid_points mem clut i 0 gp grid_size = Inr (gp, grid_size)"
| "read_grid_points mem clut i (Suc n) gp grid_size =
     bindE (read_u8 mem (clut + i)) (\<lambda>g.
       if g < 2 then Inl Fail
       else read_grid_points mem clut (Suc i) n (gp[i := g]) ((grid_size * g) mod 2 ^ 64))"

text \<open>
  \<open>read_tag_mab\<close>, in its three stages: the B curves, the M curves with the matrix,
  the A curves with the CLUT. The sums of an offset and a layout size are 64-bit sums.
\<close>

definition read_mab_matrix_stage ::
  "byte list \<Rightarrow> skcms_ICCTag \<Rightarrow> nat \<Rightarrow> nat \<Rightarrow> skcms_A2B \<Rightarrow> error + skcms_A2B" where
  "read_mab_matrix_stage mem tag matrix_offset m_curve_offset a2b =
     (if 0 \<noteq> m_curve_offset then
        (if 0 = matrix_offset then Inl Fail
         else
           let a = a2b\<lparr>matrix_channels := output_channels a2b\<rparr>
           in bindE (read_curves mem (tag_buf tag) (tag_size tag) m_curve_offset
                       (matrix_channels a) (matrix_curves a)) (\<lambda>cs.
                if tag_size tag < matrix_offset + 12 * 4 then Inl Fail
                else bindE (read_matrix mem (tag_buf tag + matrix_offset)) (\<lambda>m.
                  Inr (a\<lparr>matrix_curves := cs, a2b_matrix := m\<rparr>))))
      else if 0 \<noteq> matrix_offset then Inl Fail
      else Inr (a2b\<lparr>matrix_channels := 0\<rparr>))"

definition read_mab_clut_stage ::
  "byte list \<Rightarrow> skcms_ICCTag \<Rightarrow> nat \<Rightarrow> nat \<Rightarrow> skcms_A2B \<Rightarrow> error + skcms_A2B" where
  "read_mab_clut_stage mem tag clut_offset a_curve_offset a2b =
     (if 0 \<noteq> a_curve_offset then
        (if 0 = clut_offset then Inl Fail
         else bindE (read_curves mem (tag_buf tag) (tag_size tag) a_curve_offset
                       (input_channels a2b) (input_curves a2b)) (\<lambda>cs.
           if tag_size tag < clut_offset + sizeof_mABCLUT_Layout then Inl Fail
           else
             let clut = tag_buf tag + clut_offset
             in bindE (read_u8 mem (clut + 16)) (\<lambda>grid_byte_width.
                  if grid_byte_width \<noteq> 1 \<and> grid_byte_width \<noteq> 2 then Inl Fail
                  else
                    let a = (if grid_byte_width = 1
                             then a2b\<lparr>input_curves := cs, grid_8 := Some (clut + 20),
                                      grid_16 := None\<rparr>
                             else a2b\<lparr>input_curves := cs, grid_8 := None,
                                      grid_16 := Some (clut + 20)\<rparr>)
                    in bindE (read_grid_points mem clut 0 (input_channels a)
                                (grid_points a)
                                ((output_channels a * grid_byte_width) mod 2 ^ 32))
                         (\<lambda>(gp, grid_size).
                            if tag_size tag
                                 < (clut_offset + sizeof_mABCLUT_Layout + grid_size) mod 2 ^ 64
                            then Inl Fail
                            else Inr (a\<lparr>grid_points := gp\<rparr>)))))
      else if 0 \<noteq> clut_offset then Inl Fail
      else if input_channels a2b \<noteq> output_channels a2b then Inl Fail
      else Inr (a2b\<lparr>input_channels := 0\<rparr>))"

definition read_tag_mab :: "byte list \<Rightarrow> skcms_ICCTag \<Rightarrow> skcms_A2B \<Rightarrow> error + skcms_A2B" where
  "read_tag_mab mem tag a2b =
     (if tag_size tag < sizeof_mAB_Layout then Inl Fail
      else bindE (read_u8 mem (tag_buf tag + 8)) (\<lambda>ic.
           bindE (read_u8 mem (tag_buf tag + 9)) (\<lambda>oc.
             let a = a2b\<lparr>input_channels := ic, output_channels := oc\<rparr>
             in if output_channels a \<noteq> 3 then Inl Fail
                else if input_channels a > 4 then Inl Fail
                else
                  bindE (read_big_u32 mem (tag_buf tag + 12)) (\<lambda>b_curve_offset.
                  bindE (read_big_u32 mem (tag_buf tag + 16)) (\<lambda>matrix_offset.
                  bindE (read_big_u32 mem (tag_buf tag + 20)) (\<lambda>m_curve_offset.
                  bindE (read_big_u32 mem (tag_buf tag + 24)) (\<lambda>clut_offset.
                  bindE (read_big_u32 mem (tag_buf tag + 28)) (\<lambda>a_curve_offset.
                    if 0 = b_curve_offset then Inl Fail
                    else
                      bindE (read_curves mem (tag_buf tag) (tag_size tag) b_curve_offset
                               (output_channels a) (output_curves a)) (\<lambda>cs.
                      bindE (read_mab_matrix_stage mem tag matrix_offset m_curve_offset
                               (a\<lparr>output_curves := cs\<rparr>)) (\<lambda>a'.
                        read_mab_clut_stage mem tag clut_offset a_curve_offset a'))))))))))"

definition read_a2b :: "byte list \<Rightarrow> skcms_ICCTag \<Rightarrow> skcms_A2B \<Rightarrow> error + skcms_A2B" where
  "read_a2b mem tag a2b =
     (if tag_type tag = make_signature CHR ''m'' CHR ''f'' CHR ''t'' CHR ''1''
      then read_tag_mft1 mem tag a2b
      else if tag_type tag = make_signature CHR ''m'' CHR ''f'' CHR ''t'' CHR ''2''
      then read_tag_mft2 mem tag a2b
      else if tag_type tag = make_signature CHR ''m'' CHR ''A'' CHR ''B'' CHR '' ''
      then read_tag_mab mem tag a2b
      else Inl Fail)"

section \<open>Parsing a profile\<close>

definition read_big_date_time :: "byte list \<Rightarrow> nat \<Rightarrow> error + skcms_ICCDateTime" where
  "read_big_date_time mem p =
     bindE (read_big_u16 mem (p + 0)) (\<lambda>y.
     bindE (read_big_u16 mem (p + 2)) (\<lambda>mo.
     bindE (read_big_u16 mem (p + 4)) (\<lambda>d.
     bindE (read_big_u16 mem (p + 6)) (\<lambda>h.
     bindE (read_big_u16 mem (p + 8)) (\<lambda>mi.
     bindE (read_big_u16 mem (p + 10)) (\<lambda>s.
       Inr \<lparr>year = y, month = mo, day = d, hour = h, minute = mi, second = s\<rparr>))))))"

text \<open>
  The header fields, byte-swapped into the zeroed record. The fields lie at the offsets
  of \<open>header_Layout\<close>: size 0, cmm_type 4, version 8, profile_class 12,
  data_color_space 16, pcs 20, creation_date_time 24, signature 36, platform 40,
  flags 44, device_manufacturer 48, device_model 52, device_attributes 56,
  rendering_intent 64, illuminant 68, 72 and 76, creator 80, profile_id 84 (16 bytes),
  28 reserved bytes, tag_count 128.
\<close>

definition read_header :: "byte list \<Rightarrow> error + skcms_ICCProfile" where
  "read_header mem =
     bindE (read_big_u32 mem 0) (\<lambda>v_size.
     bindE (read_big_u32 mem 4) (\<lambda>v_cmm_type.
     bindE (read_big_u32 mem 8) (\<lambda>v_version.
     bindE (read_big_u32 mem 12) (\<lambda>v_profile_class.
     bindE (read_big_u32 mem 16) (\<lambda>v_data_color_space.
     bindE (read_big_u32 mem 20) (\<lambda>v_pcs.
     bindE (read_big_date_time mem 24) (\<lambda>v_creation_date_time.
     bindE (read_big_u32 mem 36) (\<lambda>v_signature.
     bindE (read_big_u32 mem 40) (\<lambda>v_platform.
     bindE (read_big_u32 mem 44) (\<lambda>v_flags.
     bindE (read_big_u32 mem 48) (\<lambda>v_device_manufacturer.
     bindE (read_big_u32 mem 52) (\<lambda>v_device_model.
     bindE (read_big_u64 mem 56) (\<lambda>v_device_attributes.
     bindE (read_big_u32 mem 64) (\<lambda>v_rendering_intent.
     bindE (read_big_fixed mem 68) (\<lambda>v_illuminant_X.
     bindE (read_big_fixed mem 72) (\<lambda>v_illuminant_Y.
     bindE (read_big_fixed mem 76) (\<lambda>v_illuminant_Z.
     bindE (read_big_u32 mem 80) (\<lambda>v_creator.
     bindE (if 100 \<le> length mem then Inr (take 16 (drop 84 mem)) else Inl OutOfBounds)
       (\<lambda>v_profile_id.
     bindE (read_big_u32 mem 128) (\<lambda>v_tag_count.
       Inr (zero_profile\<lparr>buffer := Some mem, profile_size := v_size,
              cmm_type := v_cmm_type, version := v_version,
              profile_class := v_profile_class, data_color_space := v_data_color_space,
              pcs := v_pcs, creation_date_time := v_creation_date_time,
              profile_signature := v_signature, platform := v_platform, flags := v_flags,
              device_manufacturer := v_device_manufacturer,
              device_model := v_device_model, device_attributes := v_device_attributes,
              rendering_intent := v_rendering_intent,
              illuminant_X := v_illuminant_X, illuminant_Y := v_illuminant_Y,
              illuminant_Z := v_illuminant_Z, creator := v_creator,
              profile_id := v_profile_id, tag_count := v_tag_count\<rparr>)))))))))))))))))))))"

text \<open>
  The validation of signature, sizes and major version. \<open>tag_table_size\<close> is a
  64-bit product and the sum with the header size a 64-bit sum.
\<close>

definition header_rejected :: "skcms_ICCProfile \<Rightarrow> nat \<Rightarrow> bool" where
  "header_rejected p len =
     (let tag_table_size = tag_count p * sizeof_tag_Layout
      in profile_signature p \<noteq> make_signature CHR ''a'' CHR ''c'' CHR ''s'' CHR ''p''
         \<or> profile_size p > len
         \<or> profile_size p < sizeof_header_Layout + tag_table_size
         \<or> version p div 2 ^ 24 > 4)"

text \<open>
  The illuminant must be D50 white: \<open>fabsf(X - 0.9642f) > 0.0100f\<close> and its like
  reject. A decimal constant is the nearest float.
\<close>

definition illuminant_rejected :: "skcms_ICCProfile \<Rightarrow> bool" where
  "illuminant_rejected p =
     (\<bar>f32_sub (illuminant_X p) (f32_round (9642 / 10000))\<bar> > f32_round (100 / 10000)
      \<or> \<bar>f32_sub (illuminant_Y p) (f32_round (10000 / 10000))\<bar> > f32_round (100 / 10000)
      \<or> \<bar>f32_sub (illuminant_Z p) (f32_round (8249 / 10000))\<bar> > f32_round (100 / 10000))"

text \<open>
  The loop over the directory, at entry \<open>i\<close> with \<open>n\<close> entries left: offset and
  size of every tag, the end as a 64-bit sum.
\<close>

fun check_tags :: "byte list \<Rightarrow> nat \<Rightarrow> nat \<Rightarrow> nat \<Rightarrow> error + unit" where
  "check_tags mem psize i 0 = Inr ()"
| "check_tags mem psize i (Suc n) =
     bindE (read_big_u32 mem (tag_entry i + 4)) (\<lambda>tag_offset.
     bindE (read_big_u32 mem (tag_entry i + 8)) (\<lambda>tag_sz.
       let tag_end = tag_offset + tag_sz
       in if tag_sz < 4 \<or> tag_end > psize then Inl Fail
          else check_tags mem psize (Suc i) n))"

text \<open>The tone curves: \<open>kTRC\<close> first, else all three of \<open>rTRC\<close>, \<open>gTRC\<close>, \<open>bTRC\<close>.\<close>

definition sig_kTRC :: nat where "sig_kTRC = make_signature CHR ''k'' CHR ''T'' CHR ''R'' CHR ''C''"
definition sig_rTRC :: nat where "sig_rTRC = make_signature CHR ''r'' CHR ''T'' CHR ''R'' CHR ''C''"
definition sig_gTRC :: nat where "sig_gTRC = make_signature CHR ''g'' CHR ''T'' CHR ''R'' CHR ''C''"
definition sig_bTRC :: nat where "sig_bTRC = make_signature CHR ''b'' CHR ''T'' CHR ''R'' CHR ''C''"
definition sig_rXYZ :: nat where "sig_rXYZ = make_signature CHR ''r'' CHR ''X'' CHR ''Y'' CHR ''Z''"
definition sig_gXYZ :: nat where "sig_gXYZ = make_signature CHR ''g'' CHR ''X'' CHR ''Y'' CHR ''Z''"
definition sig_bXYZ :: nat where "sig_bXYZ = make_signature CHR ''b'' CHR ''X'' CHR ''Y'' CHR ''Z''"
definition sig_A2B1 :: nat where "sig_A2B1 = make_signature CHR ''A'' CHR ''2'' CHR ''B'' CHR ''1''"
definition sig_A2B0 :: nat where "sig_A2B0 = make_signature CHR ''A'' CHR ''2'' CHR ''B'' CHR ''0''"

definition parse_trc :: "byte list \<Rightarrow> skcms_ICCProfile \<Rightarrow> error + skcms_ICCProfile" where
  "parse_trc mem p =
     bindE (skcms_GetTagBySignature p sig_kTRC) (\<lambda>k.
       case k of
         Some kTRC \<Rightarrow>
           bindE (read_curve mem (tag_buf kTRC) (tag_size kTRC)) (\<lambda>(c, n).
             let trc0 = (trc p)[0 := c];
                 trc1 = trc0[1 := trc0 ! 0];
                 trc2 = trc1[2 := trc1 ! 0]
             in Inr (p\<lparr>trc := trc2, has_trc := True,
                       toXYZD50 :=
                         set_val (set_val (set_val (toXYZD50 p) 0 0 (illuminant_X p))
                                    1 1 (illuminant_Y p)) 2 2 (illuminant_Z p),
                       has_toXYZD50 := True\<rparr>))
       | None \<Rightarrow>
           bindE (skcms_GetTagBySignature p sig_rTRC) (\<lambda>r.
             case r of None \<Rightarrow> Inr p
             | Some rTRC \<Rightarrow>
               bindE (skcms_GetTagBySignature p sig_gTRC) (\<lambda>g.
                 case g of None \<Rightarrow> Inr p
                 | Some gTRC \<Rightarrow>
                   bindE (skcms_GetTagBySignature p sig_bTRC) (\<lambda>b.
                     case b of None \<Rightarrow> Inr p
                     | Some bTRC \<Rightarrow>
                       bindE (read_curve mem (tag_buf rTRC) (tag_size rTRC)) (\<lambda>(c0, n0).
                       bindE (read_curve mem (tag_buf gTRC) (tag_size gTRC)) (\<lambda>(c1, n1).
                       bindE (read_curve mem (tag_buf bTRC) (tag_size bTRC)) (\<lambda>(c2, n2).
                         Inr (p\<lparr>trc := (trc p)[0 := c0, 1 := c1, 2 := c2],
                                has_trc := True\<rparr>))))))))"

definition parse_xyz :: "byte list \<Rightarrow> skcms_ICCProfile \<Rightarrow> error + skcms_ICCProfile" where
  "parse_xyz mem p =
     bindE (skcms_GetTagBySignature p sig_rXYZ) (\<lambda>r.
       case r of None \<Rightarrow> Inr p
       | Some rXYZ \<Rightarrow>
         bindE (skcms_GetTagBySignature p sig_gXYZ) (\<lambda>g.
           case g of None \<Rightarrow> Inr p
           | Some gXYZ \<Rightarrow>
             bindE (skcms_GetTagBySignature p sig_bXYZ) (\<lambda>b.
               case b of None \<Rightarrow> Inr p
               | Some bXYZ \<Rightarrow>
                 bindE (read_to_XYZD50 mem rXYZ gXYZ bXYZ (toXYZD50 p)) (\<lambda>m.
                   Inr (p\<lparr>toXYZD50 := m, has_toXYZD50 := True\<rparr>)))))"

text \<open>The loop over \<open>A2B1\<close>, \<open>A2B0\<close>: the first signature found is decoded.\<close>

fun parse_a2b :: "byte list \<Rightarrow> nat list \<Rightarrow> skcms_ICCProfile \<Rightarrow> error + skcms_ICCProfile" where
  "parse_a2b mem [] p = Inr p"
| "parse_a2b mem (sig # sigs) p =
     bindE (skcms_GetTagBySignature p sig) (\<lambda>t.
       case t of
         Some a2b_tag \<Rightarrow>
           bindE (read_a2b mem a2b_tag (A2B p)) (\<lambda>a. Inr (p\<lparr>A2B := a, has_A2B := True\<rparr>))
       | None \<Rightarrow> parse_a2b mem sigs p)"

text \<open>
  \<open>skcms_Parse\<close>. \<open>profile\<close> is the output pointer; \<open>Inr\<close> holds the record
  when the function returns true.
\<close>

definition skcms_Parse ::
  "byte list \<Rightarrow> nat \<Rightarrow> skcms_ICCProfile option \<Rightarrow> error + skcms_ICCProfile" where
  "skcms_Parse mem len profile =
     (if profile = None then Inl Fail
      else if len < sizeof_header_Layout then Inl Fail
      else bindE (read_header mem) (\<lambda>p.
        if header_rejected p len then Inl Fail
        else if illuminant_rejected p then Inl Fail
        else bindE (check_tags mem (profile_size p) 0 (tag_count p)) (\<lambda>u.
             bindE (parse_trc mem p) (\<lambda>p1.
             bindE (parse_xyz mem p1) (\<lambda>p2.
               parse_a2b mem [sig_A2B1, sig_A2B0] p2)))))"

section \<open>The parametric curve of a tag, in the older file\<close>

text \<open>
  \<open>skcms_ICCTag_getParametricCurve\<close>: \<open>Inr\<close> holds the transfer function when the
  function returns true. The tag and the curve are pointers. This older function
  divides by \<open>a\<close> without a test.
\<close>

definition skcms_ICCTag_getParametricCurve ::
  "byte list \<Rightarrow> skcms_ICCTag option \<Rightarrow> skcms_TransferFunction option
     \<Rightarrow> error + skcms_TransferFunction" where
  "skcms_ICCTag_getParametricCurve mem tag curve =
     (case tag of None \<Rightarrow> Inl Fail
      | Some t \<Rightarrow>
        if tag_type t \<noteq> make_signature CHR ''p'' CHR ''a'' CHR ''r'' CHR ''a'' then Inl Fail
        else if curve = None then Inl Fail
        else bindE (read_big_u16 mem (tag_buf t + 8)) (\<lambda>function_type.
          if function_type > 4 then Inl Fail
          else if tag_size t < 12 + curve_bytes ! function_type then Inl Fail
          else bindE (read_big_fixed mem (tag_buf t + 12)) (\<lambda>g.
            let tf = \<lparr>tf_g = g, tf_a = 1, tf_b = 0, tf_c = 0, tf_d = 0, tf_e = 0, tf_f = 0\<rparr>
            in if function_type = 1 then
                 bindE (read_big_fixed mem (tag_buf t + 16)) (\<lambda>a.
                 bindE (read_big_fixed mem (tag_buf t + 20)) (\<lambda>b.
                   if a = 0 then Inl NotFinite
                   else Inr (tf\<lparr>tf_a := a, tf_b := b, tf_d := f32_div (- b) a\<rparr>)))
               else if function_type = 2 then
                 bindE (read_big_fixed mem (tag_buf t + 16)) (\<lambda>a.
                 bindE (read_big_fixed mem (tag_buf t + 20)) (\<lambda>b.
                 bindE (read_big_fixed mem (tag_buf t + 24)) (\<lambda>e.
                   if a = 0 then Inl NotFinite
                   else Inr (tf\<lparr>tf_a := a, tf_b := b, tf_e := e, tf_d := f32_div (- b) a,
                                tf_f := e\<rparr>))))
               else if function_type = 3 then
                 bindE (read_big_fixed mem (tag_buf t + 16)) (\<lambda>a.
                 bindE (read_big_fixed mem (tag_buf t + 20)) (\<lambda>b.
                 bindE (read_big_fixed mem (tag_buf t + 24)) (\<lambda>c.
                 bindE (read_big_fixed mem (tag_buf t + 28)) (\<lambda>d.
                   Inr (tf\<lparr>tf_a := a, tf_b := b, tf_c := c, tf_d := d\<rparr>)))))
               else if function_type = 4 then
                 bindE (read_big_fixed mem (tag_buf t + 16)) (\<lambda>a.
                 bindE (read_big_fixed mem (tag_buf t + 20)) (\<lambda>b.
                 bindE (read_big_fixed mem (tag_buf t + 24)) (\<lambda>c.
                 bindE (read_big_fixed mem (tag_buf t + 32)) (\<lambda>e.
                 bindE (read_big_fixed mem (tag_buf t + 36)) (\<lambda>f.
                   Inr (tf\<lparr>tf_a := a, tf_b := b, tf_c := c, tf_e := e, tf_f := f\<rparr>))))))
               else Inr tf)))"

text \<open>
  The bytes of a tag on their own, and the handle that points to their start: a read
  that leaves them is out of bounds.
\<close>

definition tag_bytes :: "byte list \<Rightarrow> skcms_ICCTag \<Rightarrow> byte list" where
  "tag_bytes mem t = take (tag_size t) (drop (tag_buf t) mem)"

section \<open>Evaluating a curve\<close>

text \<open>
  Modelled from the spec: \<open>skcms_TransferFunction_eval\<close>, whose code is not part of
  these sources. A parametric curve is \<open>y = (a\<cdot>x + b)\<^sup>g + e\<close> for \<open>x \<ge> d\<close>, else
  \<open>y = c\<cdot>x + f\<close>; the formula is taken over the reals.
\<close>

definition skcms_TransferFunction_eval :: "skcms_TransferFunction \<Rightarrow> real \<Rightarrow> real" where
  "skcms_TransferFunction_eval tf x =
     (if x \<ge> tf_d tf then (tf_a tf * x + tf_b tf) powr (tf_g tf) + tf_e tf
      else tf_c tf * x + tf_f tf)"

text \<open>
  The indices of a sampled curve of \<open>table_entries\<close> entries at \<open>x\<close>:
  \<open>ix\<close>, \<open>lo\<close>, \<open>hi\<close> and \<open>t\<close> of \<open>skcms_eval_curve\<close>. The number of
  entries less one is a 32-bit unsigned value, converted to float for the product.
\<close>

definition eval_ix :: "nat \<Rightarrow> float \<Rightarrow> float" where
  "eval_ix entries x =
     f32_mul (fmaxf 0 (fminf x 1)) (f32_of_int (int ((entries - 1) mod 2 ^ 32)))"

definition eval_indices :: "nat \<Rightarrow> float \<Rightarrow> error + int \<times> int \<times> float" where
  "eval_indices entries x =
     (let ix = eval_ix entries x
      in bindE (f32_to_int ix) (\<lambda>lo.
         bindE (minus_1_ulp (f32_add ix 1)) (\<lambda>below.
         bindE (f32_to_int below) (\<lambda>hi.
           Inr (lo, hi, f32_sub ix (f32_of_int lo))))))"

text \<open>
  Entry \<open>i\<close> of a table, normalized: an 8-bit entry times the constant
  \<open>1/255.0f\<close>, a 16-bit entry, whose two bytes are swapped into a big-endian value
  on a little-endian host, times the constant \<open>1/65535.0f\<close>. The offset \<open>2*i\<close> is
  an int.
\<close>

definition table_8_entry :: "byte list \<Rightarrow> nat \<Rightarrow> int \<Rightarrow> error + float" where
  "table_8_entry mem table i =
     (if i < 0 then Inl OutOfBounds
      else bindE (read_u8 mem (table + nat i)) (\<lambda>v.
        Inr (f32_mul (f32_of_int (int v)) (f32_div 1 255))))"

definition table_16_entry :: "byte list \<Rightarrow> nat \<Rightarrow> int \<Rightarrow> error + float" where
  "table_16_entry mem table i =
     (if 2 * i \<ge> 2 ^ 31 then Inl Undefined
      else if i < 0 then Inl OutOfBounds
      else bindE (read_big_u16 mem (table + nat (2 * i))) (\<lambda>v.
        Inr (f32_mul (f32_of_int (int v)) (f32_div 1 65535))))"

definition skcms_eval_curve :: "byte list \<Rightarrow> skcms_Curve \<Rightarrow> float \<Rightarrow> error + float" where
  "skcms_eval_curve mem curve x =
     (if table_entries curve = 0
      then Inr (skcms_TransferFunction_eval (curve_parametric curve) x)
      else bindE (eval_indices (table_entries curve) x) (\<lambda>(lo, hi, t).
        bindE (case table_8 curve of
                 Some t8 \<Rightarrow>
                   bindE (table_8_entry mem t8 lo) (\<lambda>l.
                   bindE (table_8_entry mem t8 hi) (\<lambda>h. Inr (l, h)))
               | None \<Rightarrow>
                   (case table_16 curve of
                      None \<Rightarrow> Inl OutOfBounds
                    | Some t16 \<Rightarrow>
                        bindE (table_16_entry mem t16 lo) (\<lambda>l.
                        bindE (table_16_entry mem t16 hi) (\<lambda>h. Inr (l, h)))))
          (\<lambda>(l, h). Inr (f32_add l (f32_mul (f32_sub h l) t)))))"

section \<open>Approximating a curve\<close>

text \<open>
  \<open>skcms_ApproximateCurve\<close> hands a sampled curve to the fitter
  \<open>skcms_TransferFunction_approximate\<close>, whose code is not part of these sources: the
  fitter is a parameter of the model. A call of the fitter is recorded with the table
  function, the table and the number of entries it is given; the fitter returns its
  verdict and what it leaves in the two output locations. A pointer argument is an
  option, \<open>None\<close> for \<open>NULL\<close>, holding the content of the location it points to.
\<close>

datatype table_func = Table_func_16 | Table_func_8

type_synonym fit_call = "table_func \<times> nat option \<times> int"

type_synonym fitter =
  "fit_call \<Rightarrow> skcms_TransferFunction option \<Rightarrow> float option
     \<Rightarrow> bool \<times> skcms_TransferFunction option \<times> float option"

record approx_result =
  returned :: bool
  approx_out :: "skcms_TransferFunction option"
  max_error_out :: "float option"
  fitter_calls :: "fit_call list"

definition INT_MAX :: nat where
  "INT_MAX = 2 ^ 31 - 1"

definition approx_failed ::
  "skcms_TransferFunction option \<Rightarrow> float option \<Rightarrow> approx_result" where
  "approx_failed approx max_error =
     \<lparr>returned = False, approx_out = approx, max_error_out = max_error, fitter_calls = []\<rparr>"

definition approx_with ::
  "fitter \<Rightarrow> fit_call \<Rightarrow> skcms_TransferFunction option \<Rightarrow> float option \<Rightarrow> approx_result" where
  "approx_with fit call approx max_error =
     (case fit call approx max_error of
        (r, a, m) \<Rightarrow>
          \<lparr>returned = r, approx_out = a, max_error_out = m, fitter_calls = [call]\<rparr>)"

definition skcms_ApproximateCurve ::
  "fitter \<Rightarrow> skcms_Curve option \<Rightarrow> skcms_TransferFunction option \<Rightarrow> float option
     \<Rightarrow> approx_result" where
  "skcms_ApproximateCurve fit curve approx max_error =
     (case curve of
        None \<Rightarrow> approx_failed approx max_error
      | Some c \<Rightarrow>
          if table_entries c = 0 \<or> approx = None then approx_failed approx max_error
          else if table_entries c > INT_MAX then approx_failed approx max_error
          else if table_16 c \<noteq> None
          then approx_with fit (Table_func_16, table_16 c, int (table_entries c))
                 approx max_error
          else approx_with fit (Table_func_8, table_8 c, int (table_entries c))
                 approx max_error)"

text \<open>Sample values: the identity curve, the zeroed record, a fitter that accepts.\<close>

definition identity_tf :: skcms_TransferFunction where
  "identity_tf = \<lparr>tf_g = 1, tf_a = 1, tf_b = 0, tf_c = 0, tf_d = 0, tf_e = 0, tf_f = 0\<rparr>"

text \<open>
  A call returns when it ends with true or false: it does not read outside the buffer
  and computes nothing undefined.
\<close>

fun returns :: "error + 'a \<Rightarrow> bool" where
  "returns (Inl e) = (e = Fail)"
| "returns (Inr x) = True"

text \<open>
  Sample buffers. A header for a profile of \<open>sz\<close> bytes with \<open>n\<close> tags: the
  signature \<open>acsp\<close>, version 4.2 and the D50 illuminant \<open>0x0000F6D6\<close>,
  \<open>0x00010000\<close>, \<open>0x0000D32D\<close>. A profile of 148 bytes whose one tag, with the
  private signature \<open>desc\<close>, is the four bytes \<open>para\<close> at the end of the buffer.
\<close>

definition be32 :: "nat \<Rightarrow> byte list" where
  "be32 n = [of_nat (n div 2 ^ 24), of_nat (n div 2 ^ 16), of_nat (n div 2 ^ 8), of_nat n]"

definition sample_header :: "nat \<Rightarrow> nat \<Rightarrow> byte list" where
  "sample_header sz n =
     be32 sz @ replicate 4 0 @ be32 0x04200000 @ replicate 24 0
     @ [0x61, 0x63, 0x73, 0x70] @ replicate 28 0
     @ be32 0xF6D6 @ be32 0x10000 @ be32 0xD32D @ replicate 48 0 @ be32 n"

definition zero_tag :: skcms_ICCTag where
  "zero_tag = \<lparr>tag_signature = 0, tag_type = 0, tag_size = 0, tag_buf = 0\<rparr>"

definition short_para_profile :: "byte list" where
  "short_para_profile =
     sample_header 148 1 @ be32 0x64657363 @ be32 144 @ be32 4 @ [0x70, 0x61, 0x72, 0x61]"

text \<open>
  An \<open>mft2\<close> payload with three input channels, three output channels, two grid
  points, the given table sizes and \<open>n\<close> bytes of tables; an \<open>mAB \<close> payload with
  the given input channels and offsets (B, matrix, M, CLUT, A), followed by three empty
  \<open>curv\<close> curves at offset 32.
\<close>

definition be16 :: "nat \<Rightarrow> byte list" where
  "be16 n = [of_nat (n div 2 ^ 8), of_nat n]"

definition mft2_sample :: "nat \<Rightarrow> nat \<Rightarrow> nat \<Rightarrow> byte list" where
  "mft2_sample ite ote n =
     [0x6d, 0x66, 0x74, 0x32] @ replicate 4 0 @ [3, 3, 2, 0] @ replicate 36 0
     @ be16 ite @ be16 ote @ replicate n 0"

definition mft2_tag :: "nat \<Rightarrow> skcms_ICCTag" where
  "mft2_tag n = \<lparr>tag_signature = 0x41324231, tag_type = 0x6d667432, tag_size = 52 + n, tag_buf = 0\<rparr>"

definition curv_empty :: "byte list" where
  "curv_empty = [0x63, 0x75, 0x72, 0x76] @ replicate 8 0"

definition mab_sample :: "nat \<Rightarrow> nat \<Rightarrow> nat \<Rightarrow> nat \<Rightarrow> nat \<Rightarrow> nat \<Rightarrow> byte list" where
  "mab_sample ic b mx m cl a =
     [0x6d, 0x41, 0x42, 0x20] @ replicate 4 0 @ [of_nat ic, 3, 0, 0]
     @ be32 b @ be32 mx @ be32 m @ be32 cl @ be32 a
     @ curv_empty @ curv_empty @ curv_empty"

definition mab_tag :: skcms_ICCTag where
  "mab_tag = \<lparr>tag_signature = 0x41324231, tag_type = 0x6d414220, tag_size = 68, tag_buf = 0\<rparr>"

text \<open>
  A \<open>para\<close> payload of 28 bytes with the given function type, the exponent 2.0
  and the three further parameters given as 15.16 values.
\<close>

definition para_sample :: "nat \<Rightarrow> nat \<Rightarrow> nat \<Rightarrow> nat \<Rightarrow> byte list" where
  "para_sample ft a b e =
     [0x70, 0x61, 0x72, 0x61] @ replicate 4 0 @ be16 ft @ [0, 0]
     @ be32 0x20000 @ be32 a @ be32 b @ be32 e"

definition accepting_fitter :: fitter where
  "accepting_fitter call approx max_error = (True, Some identity_tf, Some 0)"

section \<open>Properties\<close>

subsection \<open>Approximating a curve\<close>

lemma fitter_calls_approx_with:
  "fitter_calls (approx_with fit call approx max_error) = [call]"
  by (simp add: approx_with_def split: prod.split)

text \<open>
  Claim C10. \<open>skcms_ApproximateCurve\<close> returns failure, without calling the fitter
  and leaving the output transfer function as it was, whenever the curve pointer or the
  output pointer is null, the curve is parametric (\<open>table_entries = 0\<close>) or
  \<open>table_entries\<close> exceeds \<open>INT_MAX\<close>; and whenever the fitter is called, it is
  called once, on a sampled curve, with that curve's number of entries.
\<close>

theorem approximate_curve_guards:
  "((curve = None \<or> approx = None
      \<or> (\<exists>c. curve = Some c \<and> (table_entries c = 0 \<or> INT_MAX < table_entries c)))
    \<longrightarrow> skcms_ApproximateCurve fit curve approx max_error
         = \<lparr>returned = False, approx_out = approx, max_error_out = max_error,
            fitter_calls = []\<rparr>)
   \<and> (fitter_calls (skcms_ApproximateCurve fit curve approx max_error) \<noteq> []
    \<longrightarrow> (\<exists>c tf ctx. curve = Some c \<and> table_entries c \<noteq> 0 \<and> table_entries c \<le> INT_MAX
         \<and> fitter_calls (skcms_ApproximateCurve fit curve approx max_error)
             = [(tf, ctx, int (table_entries c))]))"
proof (intro conjI impI)
  assume "curve = None \<or> approx = None
      \<or> (\<exists>c. curve = Some c \<and> (table_entries c = 0 \<or> INT_MAX < table_entries c))"
  then show "skcms_ApproximateCurve fit curve approx max_error
         = \<lparr>returned = False, approx_out = approx, max_error_out = max_error,
            fitter_calls = []\<rparr>"
    by (cases curve) (auto simp: skcms_ApproximateCurve_def approx_failed_def)
next
  assume calls: "fitter_calls (skcms_ApproximateCurve fit curve approx max_error) \<noteq> []"
  then obtain c where c: "curve = Some c"
    by (cases curve) (auto simp: skcms_ApproximateCurve_def approx_failed_def)
  from calls c have ne: "table_entries c \<noteq> 0" and le: "table_entries c \<le> INT_MAX"
    by (auto simp: skcms_ApproximateCurve_def approx_failed_def split: if_splits)
  from calls c ne le
  have "\<exists>tf ctx. fitter_calls (skcms_ApproximateCurve fit curve approx max_error)
             = [(tf, ctx, int (table_entries c))]"
    by (auto simp: skcms_ApproximateCurve_def approx_failed_def fitter_calls_approx_with
             split: if_splits)
  with c ne le show "\<exists>c tf ctx. curve = Some c \<and> table_entries c \<noteq> 0
         \<and> table_entries c \<le> INT_MAX
         \<and> fitter_calls (skcms_ApproximateCurve fit curve approx max_error)
             = [(tf, ctx, int (table_entries c))]"
    by blast
qed

theorem approximate_curve_guards_witness:
  "skcms_ApproximateCurve accepting_fitter
     (Some \<lparr>table_8 = None, table_16 = None, table_entries = 0,
            curve_parametric = identity_tf\<rparr>) (Some zero_tf) None
     = \<lparr>returned = False, approx_out = Some zero_tf, max_error_out = None,
        fitter_calls = []\<rparr>
   \<and> fitter_calls (skcms_ApproximateCurve accepting_fitter
        (Some \<lparr>table_8 = None, table_16 = Some 12, table_entries = 2,
               curve_parametric = zero_tf\<rparr>) (Some zero_tf) None)
     = [(Table_func_16, Some 12, 2)]"
proof -
  have calls: "fitter_calls (skcms_ApproximateCurve accepting_fitter
        (Some \<lparr>table_8 = None, table_16 = Some 12, table_entries = 2,
               curve_parametric = zero_tf\<rparr>) (Some zero_tf) None)
     = [(Table_func_16, Some 12, 2)]"
    by (simp add: skcms_ApproximateCurve_def approx_with_def accepting_fitter_def
          INT_MAX_def)
  show ?thesis
    using approximate_curve_guards [of
        "Some \<lparr>table_8 = None, table_16 = None, table_entries = 0,
               curve_parametric = identity_tf\<rparr>"
        "Some zero_tf" accepting_fitter None]
      approximate_curve_guards [of
        "Some \<lparr>table_8 = None, table_16 = Some 12, table_entries = 2,
               curve_parametric = zero_tf\<rparr>"
        "Some zero_tf" accepting_fitter None]
      calls
    by simp
qed

subsection \<open>The decoders stay inside the tag\<close>

lemma read_u8_Inr: "p < length mem \<Longrightarrow> read_u8 mem p = Inr (unat (mem ! p))"
  by (simp add: read_u8_def)

lemma read_big_u16_Inr:
  "p + 2 \<le> length mem \<Longrightarrow>
   read_big_u16 mem p = Inr (unat (mem ! p) * 2 ^ 8 + unat (mem ! (p + 1)))"
  by (simp add: read_big_u16_def)

lemma read_big_u32_Inr:
  "p + 4 \<le> length mem \<Longrightarrow>
   read_big_u32 mem p = Inr (unat (mem ! p) * 2 ^ 24 + unat (mem ! (p + 1)) * 2 ^ 16
                + unat (mem ! (p + 2)) * 2 ^ 8 + unat (mem ! (p + 3)))"
  by (simp add: read_big_u32_def)

lemma read_big_fixed_Inr:
  "p + 4 \<le> length mem \<Longrightarrow> \<exists>v. read_big_fixed mem p = Inr v"
  by (simp add: read_big_fixed_def read_big_i32_def bindE_def read_big_u32_def)

lemma returns_bindE:
  "returns m \<Longrightarrow> (\<And>x. m = Inr x \<Longrightarrow> returns (f x)) \<Longrightarrow> returns (bindE m f)"
  by (cases m) (simp_all add: bindE_def)

lemma returns_fixed: "p + 4 \<le> length mem \<Longrightarrow> returns (read_big_fixed mem p)"
  using read_big_fixed_Inr [of p mem] by auto

lemma returns_u32: "p + 4 \<le> length mem \<Longrightarrow> returns (read_big_u32 mem p)"
  by (simp add: read_big_u32_def)

lemma returns_u16: "p + 2 \<le> length mem \<Longrightarrow> returns (read_big_u16 mem p)"
  by (simp add: read_big_u16_def)

lemma returns_u8: "p < length mem \<Longrightarrow> returns (read_u8 mem p)"
  by (simp add: read_u8_def)

lemma curve_bytes_cases:
  "ft \<le> 4 \<Longrightarrow> curve_bytes ! ft = (if ft = 0 then 4 else if ft = 1 then 12 else if ft = 2 then 16 else if ft = 3 then 20 else 28)"
  by (auto simp: curve_bytes_def nth_Cons' )

lemma returns_read_curve_para:
  assumes "buf + sz \<le> length mem"
  shows "returns (read_curve_para mem buf sz)"
proof (cases "sz < 12")
  case True
  then show ?thesis by (simp add: read_curve_para_def sizeof_para_Layout_def)
next
  case False
  show ?thesis
    unfolding read_curve_para_def Let_def sizeof_para_Layout_def
    using assms False
    by (auto intro!: returns_bindE returns_fixed returns_u16 simp: curve_bytes_cases split: if_splits)
qed

lemma returns_read_curve_curv:
  assumes "buf + sz \<le> length mem"
  shows "returns (read_curve_curv mem buf sz)"
  unfolding read_curve_curv_def Let_def sizeof_curv_Layout_def
  using assms
  by (auto intro!: returns_bindE returns_u32 returns_u16 split: if_splits)

lemma returns_read_curve:
  assumes "buf + sz \<le> length mem"
  shows "returns (read_curve mem buf sz)"
  unfolding read_curve_def
  using assms
  by (auto intro!: returns_bindE returns_u32 returns_read_curve_para returns_read_curve_curv)

lemma returns_read_curves_from:
  assumes "buf + sz \<le> length mem"
  shows "returns (read_curves_from mem buf sz off i n curves)"
  using assms
proof (induction n arbitrary: off i curves)
  case 0
  then show ?case by simp
next
  case (Suc n)
  show ?case
    using Suc.prems
    by (auto intro!: returns_bindE returns_read_curve Suc.IH simp: Let_def)
qed


lemma returns_read_curves:
  "buf + sz \<le> length mem \<Longrightarrow> returns (read_curves mem buf sz off n curves)"
  by (simp add: read_curves_def returns_read_curves_from)

lemma returns_read_matrix:
  "p + 48 \<le> length mem \<Longrightarrow> returns (read_matrix mem p)"
  unfolding read_matrix_def
  by (auto intro!: returns_bindE returns_fixed)

lemma returns_read_mab_matrix_stage:
  assumes "tag_buf tag + tag_size tag \<le> length mem"
  shows "returns (read_mab_matrix_stage mem tag matrix_offset m_curve_offset a2b)"
  unfolding read_mab_matrix_stage_def Let_def
  using assms
  by (auto intro!: returns_bindE returns_read_curves returns_read_matrix)

subsection \<open>Evaluation on sample buffers\<close>

lemmas f32_defs = f32_round_def f32_ulp_def ilog2_def rne_def log2_nat.simps Let_def
  f32_mul_def f32_div_def f32_of_int_def f32_sub_def f32_add_def

lemmas read_defs = read_u8_def read_big_u16_def read_big_u32_def read_big_u64_def
  read_big_i32_def to_i32_def read_big_fixed_def read_big_date_time_def bindE_def

lemmas sig_defs = make_signature_def sig_kTRC_def sig_rTRC_def sig_gTRC_def sig_bTRC_def
  sig_rXYZ_def sig_gXYZ_def sig_bXYZ_def sig_A2B1_def sig_A2B0_def

lemmas sizeof_defs = sizeof_header_Layout_def sizeof_tag_Layout_def sizeof_XYZ_Layout_def
  sizeof_para_Layout_def sizeof_curv_Layout_def sizeof_mft1_Layout_def
  sizeof_mft2_Layout_def sizeof_mAB_Layout_def sizeof_mABCLUT_Layout_def

lemmas parse_defs = skcms_Parse_def read_header_def sample_header_def be32_def
  nth_append zero_profile_def header_rejected_def illuminant_rejected_def
  parse_trc_def parse_xyz_def skcms_GetTagBySignature_def get_tag_table_def
  tag_entry_def fill_tag_def

subsection \<open>Looking up a tag by index\<close>

text \<open>
  Claim C8. The guard of \<open>skcms_GetTagByIndex\<close> lets the index \<open>tag_count\<close>
  through. The profile of 132 bytes with no tags parses, and the lookup of index 0
  reads the bytes from 132 on, which lie behind the (empty) directory and behind the
  buffer. The same holds for \<open>skcms_ICCProfile_getTagByIndex\<close> of the older file.
\<close>

theorem get_tag_by_index_past_directory:
  "case skcms_Parse (sample_header 132 0) 132 (Some zero_profile) of
     Inl e \<Rightarrow> False
   | Inr p \<Rightarrow>
       tag_count p = 0 \<and> buffer p = Some (sample_header 132 0)
       \<and> skcms_GetTagByIndex (Some p) 0 (Some zero_tag) = Inl OutOfBounds
       \<and> skcms_ICCProfile_getTagByIndex (Some p) 0 (Some zero_tag) = Inl OutOfBounds"
  by (simp add: parse_defs read_defs sig_defs sizeof_defs f32_defs skcms_GetTagByIndex_def
        skcms_ICCProfile_getTagByIndex_def)

subsection \<open>The parametric curve of a tag\<close>

text \<open>
  Claim C9. \<open>skcms_ICCTag_getParametricCurve\<close> reads the function type at payload
  offset 8 before it looks at the size of the tag. The sample profile parses, its tag
  has four bytes, the last four of the buffer, and the function reads behind them:
  out of the buffer, and out of the bytes of the tag taken on their own.
\<close>

theorem get_parametric_curve_reads_past_tag:
  "case skcms_Parse short_para_profile 148 (Some zero_profile) of
     Inl e \<Rightarrow> False
   | Inr p \<Rightarrow>
       (case skcms_GetTagBySignature p 0x64657363 of
          Inr (Some t) \<Rightarrow>
            tag_size t = 4 \<and> tag_buf t + tag_size t = length short_para_profile
            \<and> skcms_ICCTag_getParametricCurve short_para_profile (Some t) (Some zero_tf)
                = Inl OutOfBounds
            \<and> skcms_ICCTag_getParametricCurve (tag_bytes short_para_profile t)
                  (Some (t\<lparr>tag_buf := 0\<rparr>)) (Some zero_tf)
                = Inl OutOfBounds
        | _ \<Rightarrow> False)"
  by (simp add: parse_defs read_defs sig_defs sizeof_defs f32_defs short_para_profile_def
        skcms_ICCTag_getParametricCurve_def tag_bytes_def)

lemma fold_upt_small:
  "fold f [0 ..< 1] s = f 0 s"
  "fold f [0 ..< 2] s = f 1 (f 0 s)"
  "fold f [0 ..< 3] s = f 2 (f 1 (f 0 s))"
  "fold f [0 ..< 4] s = f 3 (f 2 (f 1 (f 0 s)))"
  by (simp_all add: numeral_2_eq_2 numeral_3_eq_3 eval_nat_numeral(2) [of "num.Bit0 num.One"])

lemma read_curves_from_numeral:
  "read_curves_from mem buf sz curve_offset i (numeral k) curves =
     (if curve_offset > sz then Inl Fail
      else bindE (read_curve mem (buf + curve_offset) (sz - curve_offset)) (\<lambda>(c, bytes).
        if bytes > UINT32_MAX - 3 then Inl Fail
        else
          let bytes4 = (bytes + 3) div 4 * 4;
              new_offset_64 = curve_offset + bytes4
          in if new_offset_64 \<noteq> new_offset_64 mod 2 ^ 32 then Inl Fail
             else read_curves_from mem buf sz (new_offset_64 mod 2 ^ 32) (Suc i)
                    (pred_numeral k) (curves[i := c])))"
  by (simp add: numeral_eq_Suc)

subsection \<open>The table sizes of an mft2 tag\<close>

text \<open>
  Claim C7. For an \<open>mft2\<close> payload whose two table sizes can be read: when either
  lies outside \<open>[2, 4096]\<close> the decoder returns false; when both lie inside, the
  tag being long enough for its layout, the decoder goes on to the common fields and
  the tables, so this check rejects nothing. In particular 1 and 4097 fail, 2 and 4096
  pass.
\<close>

theorem mft2_table_entries_range:
  assumes "read_big_u16 mem (tag_buf tag + 48) = Inr ite"
    and "read_big_u16 mem (tag_buf tag + 50) = Inr ote"
  shows "((ite < 2 \<or> 4096 < ite \<or> ote < 2 \<or> 4096 < ote)
            \<longrightarrow> read_tag_mft2 mem tag a2b = Inl Fail)
       \<and> ((2 \<le> ite \<and> ite \<le> 4096 \<and> 2 \<le> ote \<and> ote \<le> 4096 \<and> sizeof_mft2_Layout \<le> tag_size tag)
            \<longrightarrow> read_tag_mft2 mem tag a2b
                = bindE (read_mft_common mem (tag_buf tag) a2b)
                    (init_a2b_tables (tag_buf tag + 52) (tag_size tag - sizeof_mft2_Layout) 2
                       ite ote))"
proof -
  from assms(2) have len: "tag_buf tag + 52 \<le> length mem"
    by (simp add: read_big_u16_def split: if_splits)
  then have common: "returns (read_mft_common mem (tag_buf tag) a2b)"
    unfolding read_mft_common_def Let_def
    by (auto intro!: returns_bindE returns_u8)
  show ?thesis
  proof (cases "read_mft_common mem (tag_buf tag) a2b")
    case (Inl e)
    with common have "e = Fail" by simp
    with Inl show ?thesis
      by (simp add: read_tag_mft2_def bindE_def)
  next
    case (Inr a)
    then show ?thesis
      using assms by (auto simp: read_tag_mft2_def bindE_def)
  qed
qed


theorem mft2_table_entries_range_witness:
  "read_tag_mft2 (mft2_sample 1 2 72) (mft2_tag 72) zero_A2B = Inl Fail
   \<and> read_tag_mft2 (mft2_sample 4097 2 72) (mft2_tag 72) zero_A2B = Inl Fail
   \<and> read_tag_mft2 (mft2_sample 2 4097 72) (mft2_tag 72) zero_A2B = Inl Fail
   \<and> \<not> isl (read_tag_mft2 (mft2_sample 2 2 72) (mft2_tag 72) zero_A2B)
   \<and> \<not> isl (read_tag_mft2 (mft2_sample 4096 4096 49200) (mft2_tag 49200) zero_A2B)"
proof -
  have r: "read_big_u16 (mft2_sample 1 2 72) (tag_buf (mft2_tag 72) + 48) = Inr 1"
          "read_big_u16 (mft2_sample 1 2 72) (tag_buf (mft2_tag 72) + 50) = Inr 2"
          "read_big_u16 (mft2_sample 4097 2 72) (tag_buf (mft2_tag 72) + 48) = Inr 4097"
          "read_big_u16 (mft2_sample 4097 2 72) (tag_buf (mft2_tag 72) + 50) = Inr 2"
          "read_big_u16 (mft2_sample 2 4097 72) (tag_buf (mft2_tag 72) + 48) = Inr 2"
          "read_big_u16 (mft2_sample 2 4097 72) (tag_buf (mft2_tag 72) + 50) = Inr 4097"
          "read_big_u16 (mft2_sample 2 2 72) (tag_buf (mft2_tag 72) + 48) = Inr 2"
          "read_big_u16 (mft2_sample 2 2 72) (tag_buf (mft2_tag 72) + 50) = Inr 2"
          "read_big_u16 (mft2_sample 4096 4096 49200) (tag_buf (mft2_tag 49200) + 48) = Inr 4096"
          "read_big_u16 (mft2_sample 4096 4096 49200) (tag_buf (mft2_tag 49200) + 50) = Inr 4096"
    by (simp_all add: mft2_sample_def mft2_tag_def be16_def read_big_u16_def nth_append)
  have c: "read_mft_common (mft2_sample 2 2 72) 0 zero_A2B
             = Inr (zero_A2B\<lparr>input_channels := 3, output_channels := 3, grid_points := [2, 2, 2, 0]\<rparr>)"
          "read_mft_common (mft2_sample 4096 4096 49200) 0 zero_A2B
             = Inr (zero_A2B\<lparr>input_channels := 3, output_channels := 3, grid_points := [2, 2, 2, 0]\<rparr>)"
    by (simp_all add: read_mft_common_def mft2_sample_def read_u8_def bindE_def zero_A2B_def
          nth_append fold_upt_small)
  have i: "\<not> isl (init_a2b_tables 52 72 2 2 2
                 (zero_A2B\<lparr>input_channels := 3, output_channels := 3, grid_points := [2, 2, 2, 0]\<rparr>))"
      "\<not> isl (init_a2b_tables 52 49200 2 4096 4096
                 (zero_A2B\<lparr>input_channels := 3, output_channels := 3, grid_points := [2, 2, 2, 0]\<rparr>))"
    by (simp_all add: init_a2b_tables_def zero_A2B_def Let_def
          fold_upt_small set_tables_def set_table_def)
  show ?thesis
    using mft2_table_entries_range [OF r(1) r(2), of zero_A2B]
      mft2_table_entries_range [OF r(3) r(4), of zero_A2B]
      mft2_table_entries_range [OF r(5) r(6), of zero_A2B]
      mft2_table_entries_range [OF r(7) r(8), of zero_A2B]
      mft2_table_entries_range [OF r(9) r(10), of zero_A2B]
      c i
    by (simp add: mft2_tag_def sizeof_mft2_Layout_def bindE_def)
qed


subsection \<open>The presence rules of an mAB tag\<close>

text \<open>
  Claim C6. For an \<open>mAB \<close> payload that lies inside the buffer, with the channel
  counts and the five offsets as read from it: the decoder returns false when the
  B curve offset is 0, when exactly one of the M curve offset and the matrix offset is
  0, and when exactly one of the A curve offset and the CLUT offset is 0; when both of
  these are 0 it returns false unless the input and output channel counts agree, and a
  decoded record then has \<open>input_channels = 0\<close>.
\<close>

theorem mab_presence_rules:
  assumes within: "tag_buf tag + tag_size tag \<le> length mem"
    and ic: "read_u8 mem (tag_buf tag + 8) = Inr ic"
    and oc: "read_u8 mem (tag_buf tag + 9) = Inr oc"
    and b: "read_big_u32 mem (tag_buf tag + 12) = Inr b_curve_offset"
    and mx: "read_big_u32 mem (tag_buf tag + 16) = Inr matrix_offset"
    and m: "read_big_u32 mem (tag_buf tag + 20) = Inr m_curve_offset"
    and cl: "read_big_u32 mem (tag_buf tag + 24) = Inr clut_offset"
    and a: "read_big_u32 mem (tag_buf tag + 28) = Inr a_curve_offset"
  shows "(b_curve_offset = 0 \<longrightarrow> read_tag_mab mem tag a2b = Inl Fail)
     \<and> ((m_curve_offset = 0) \<noteq> (matrix_offset = 0) \<longrightarrow> read_tag_mab mem tag a2b = Inl Fail)
     \<and> ((a_curve_offset = 0) \<noteq> (clut_offset = 0) \<longrightarrow> read_tag_mab mem tag a2b = Inl Fail)
     \<and> (a_curve_offset = 0 \<and> clut_offset = 0 \<and> ic \<noteq> oc
          \<longrightarrow> read_tag_mab mem tag a2b = Inl Fail)
     \<and> (a_curve_offset = 0 \<and> clut_offset = 0
          \<longrightarrow> (\<forall>r. read_tag_mab mem tag a2b = Inr r \<longrightarrow> ic = oc \<and> input_channels r = 0))"
proof -
  define a0 where "a0 = a2b\<lparr>input_channels := ic, output_channels := oc\<rparr>"
  define RC where "RC = read_curves mem (tag_buf tag) (tag_size tag) b_curve_offset
                          (output_channels a0) (output_curves a0)"
  define MS where "MS = (\<lambda>cs. read_mab_matrix_stage mem tag matrix_offset m_curve_offset
                          (a0\<lparr>output_curves := cs\<rparr>))"
  define CS where "CS = read_mab_clut_stage mem tag clut_offset a_curve_offset"
  have R: "read_tag_mab mem tag a2b =
     (if tag_size tag < sizeof_mAB_Layout then Inl Fail
      else if oc \<noteq> 3 then Inl Fail
      else if ic > 4 then Inl Fail
      else if b_curve_offset = 0 then Inl Fail
      else bindE RC (\<lambda>cs. bindE (MS cs) CS))"
    by (auto simp: read_tag_mab_def ic oc b mx m cl a bindE_def Let_def a0_def RC_def MS_def CS_def)
  have retRC: "returns RC"
    unfolding RC_def using within by (rule returns_read_curves)
  have retMS: "returns (MS cs)" for cs
    unfolding MS_def using within by (rule returns_read_mab_matrix_stage)
  have MSfail: "MS cs = Inl Fail" if "(m_curve_offset = 0) \<noteq> (matrix_offset = 0)" for cs
    using that by (auto simp: MS_def read_mab_matrix_stage_def)
  have MSchan: "input_channels a' = ic \<and> output_channels a' = oc" if "MS cs = Inr a'" for cs a'
    using that
    by (auto simp: MS_def read_mab_matrix_stage_def a0_def bindE_def Let_def
             split: if_splits sum.splits)
  have CSfail: "CS a' = Inl Fail" if "(a_curve_offset = 0) \<noteq> (clut_offset = 0)" for a'
    using that by (auto simp: CS_def read_mab_clut_stage_def)
  have CSnone: "CS a' = (if input_channels a' \<noteq> output_channels a' then Inl Fail
                         else Inr (a'\<lparr>input_channels := 0\<rparr>))"
    if "a_curve_offset = 0" "clut_offset = 0" for a'
    using that by (simp add: CS_def read_mab_clut_stage_def)
  show ?thesis
  proof (cases RC)
    case (Inl e)
    with retRC have "e = Fail" by simp
    with Inl R show ?thesis by (simp add: bindE_def)
  next
    case RCr: (Inr cs)
    show ?thesis
    proof (cases "MS cs")
      case (Inl e)
      with retMS [of cs] have "e = Fail" by simp
      with Inl RCr R show ?thesis by (simp add: bindE_def)
    next
      case MSr: (Inr a')
      from MSchan [OF MSr] have ch: "input_channels a' = ic" "output_channels a' = oc" by simp_all
      have R': "read_tag_mab mem tag a2b =
          (if tag_size tag < sizeof_mAB_Layout then Inl Fail
           else if oc \<noteq> 3 then Inl Fail
           else if ic > 4 then Inl Fail
           else if b_curve_offset = 0 then Inl Fail
           else CS a')"
        using R RCr MSr by (simp add: bindE_def)
      show ?thesis
        using MSfail [of cs] MSr CSfail [of a'] CSnone [of a'] ch
        by (auto simp: R')
    qed
  qed
qed

lemma length_mab_sample: "length (mab_sample ic b mx m cl a) = 68"
  by (simp add: mab_sample_def curv_empty_def be32_def)

lemma mab_sample_curve_0: "read_curve (mab_sample ic b mx m cl a) 32 36 = Inr (para_curve identity_tf, 12)"
  by (simp add: mab_sample_def curv_empty_def be32_def
        read_defs sizeof_defs nth_append read_curve_def read_curve_curv_def make_signature_def
        identity_tf_def para_curve_def Let_def)

lemma mab_sample_curve_1: "read_curve (mab_sample ic b mx m cl a) 44 24 = Inr (para_curve identity_tf, 12)"
  by (simp add: mab_sample_def curv_empty_def be32_def
        read_defs sizeof_defs nth_append read_curve_def read_curve_curv_def make_signature_def
        identity_tf_def para_curve_def Let_def)

lemma mab_sample_curve_2: "read_curve (mab_sample ic b mx m cl a) 56 12 = Inr (para_curve identity_tf, 12)"
  by (simp add: mab_sample_def curv_empty_def be32_def
        read_defs sizeof_defs nth_append read_curve_def read_curve_curv_def make_signature_def
        identity_tf_def para_curve_def Let_def)


lemma mab_sample_curves:
  "read_curves_from (mab_sample ic b mx m cl a) 0 68 32 0 3 [zero_curve, zero_curve, zero_curve]
    = Inr [para_curve identity_tf, para_curve identity_tf, para_curve identity_tf]"
  by (simp add: read_curves_from_numeral mab_sample_curve_0 mab_sample_curve_1 mab_sample_curve_2 bindE_def UINT32_MAX_def)


lemma mab_sample_header:
  "read_u8 (mab_sample ic b mx m cl a) 8 = Inr (ic mod 256)"
  "read_u8 (mab_sample ic b mx m cl a) 9 = Inr 3"
  by (simp_all add: mab_sample_def read_defs nth_append unat_of_nat)

lemma mab_sample_offsets:
  assumes "b = 0 \<or> b = 32" "mx = 0 \<or> mx = 68" "m = 0 \<or> m = 32"
    "cl = 0 \<or> cl = 32" "a = 0 \<or> a = 32"
  shows "read_big_u32 (mab_sample ic b mx m cl a) 12 = Inr b"
    "read_big_u32 (mab_sample ic b mx m cl a) 16 = Inr mx"
    "read_big_u32 (mab_sample ic b mx m cl a) 20 = Inr m"
    "read_big_u32 (mab_sample ic b mx m cl a) 24 = Inr cl"
    "read_big_u32 (mab_sample ic b mx m cl a) 28 = Inr a"
  using assms(1) apply (auto simp: mab_sample_def be32_def read_defs nth_append)[1]
  using assms(2) apply (auto simp: mab_sample_def be32_def read_defs nth_append)[1]
  using assms(3) apply (auto simp: mab_sample_def be32_def read_defs nth_append)[1]
  using assms(4) apply (auto simp: mab_sample_def be32_def read_defs nth_append)[1]
  using assms(5) apply (auto simp: mab_sample_def be32_def read_defs nth_append)[1]
  done

lemma mab_sample_success:
  "read_tag_mab (mab_sample 3 32 0 0 0 0) mab_tag zero_A2B
     = Inr (zero_A2B\<lparr>output_channels := 3,
              output_curves := [para_curve identity_tf, para_curve identity_tf,
                                para_curve identity_tf]\<rparr>)"
  by (simp add: read_tag_mab_def mab_tag_def mab_sample_header mab_sample_offsets
        mab_sample_curves read_curves_def bindE_def sizeof_defs zero_A2B_def
        read_mab_matrix_stage_def read_mab_clut_stage_def Let_def)

theorem mab_presence_rules_witness:
  "read_tag_mab (mab_sample 3 0 0 0 0 0) mab_tag zero_A2B = Inl Fail
   \<and> read_tag_mab (mab_sample 3 32 68 0 0 0) mab_tag zero_A2B = Inl Fail
   \<and> read_tag_mab (mab_sample 3 32 0 32 0 0) mab_tag zero_A2B = Inl Fail
   \<and> read_tag_mab (mab_sample 3 32 0 0 32 0) mab_tag zero_A2B = Inl Fail
   \<and> read_tag_mab (mab_sample 3 32 0 0 0 32) mab_tag zero_A2B = Inl Fail
   \<and> read_tag_mab (mab_sample 2 32 0 0 0 0) mab_tag zero_A2B = Inl Fail
   \<and> (case read_tag_mab (mab_sample 3 32 0 0 0 0) mab_tag zero_A2B of
         Inl e \<Rightarrow> False | Inr r \<Rightarrow> input_channels r = 0)"
proof -
  have t: "tag_buf mab_tag + tag_size mab_tag \<le> length (mab_sample ic b mx m cl a)"
    "tag_buf mab_tag + 8 = 8" "tag_buf mab_tag + 9 = 9" "tag_buf mab_tag + 12 = 12"
    "tag_buf mab_tag + 16 = 16" "tag_buf mab_tag + 20 = 20" "tag_buf mab_tag + 24 = 24"
    "tag_buf mab_tag + 28 = 28" for ic b mx m cl a
    by (simp_all add: mab_tag_def length_mab_sample)
  have th: "(b = 0 \<longrightarrow> read_tag_mab (mab_sample ic b mx m cl a) mab_tag zero_A2B = Inl Fail)
     \<and> ((m = 0) \<noteq> (mx = 0) \<longrightarrow> read_tag_mab (mab_sample ic b mx m cl a) mab_tag zero_A2B = Inl Fail)
     \<and> ((a = 0) \<noteq> (cl = 0) \<longrightarrow> read_tag_mab (mab_sample ic b mx m cl a) mab_tag zero_A2B = Inl Fail)
     \<and> (a = 0 \<and> cl = 0 \<and> ic \<noteq> 3
          \<longrightarrow> read_tag_mab (mab_sample ic b mx m cl a) mab_tag zero_A2B = Inl Fail)
     \<and> (a = 0 \<and> cl = 0
          \<longrightarrow> (\<forall>r. read_tag_mab (mab_sample ic b mx m cl a) mab_tag zero_A2B = Inr r
                \<longrightarrow> ic = 3 \<and> input_channels r = 0))"
    if "ic < 256" "b = 0 \<or> b = 32" "mx = 0 \<or> mx = 68" "m = 0 \<or> m = 32"
      "cl = 0 \<or> cl = 32" "a = 0 \<or> a = 32" for ic b mx m cl a
    using mab_presence_rules [of mab_tag "mab_sample ic b mx m cl a" ic 3 b mx m cl a zero_A2B,
        OF t(1), unfolded t(2-8)] mab_sample_header [of ic b mx m cl a]
      mab_sample_offsets [OF that(2-6), of ic] that(1)
    by simp
  have 1: "read_tag_mab (mab_sample 3 0 0 0 0 0) mab_tag zero_A2B = Inl Fail"
    using th [of 3 0 0 0 0 0] by simp
  have 2: "read_tag_mab (mab_sample 3 32 68 0 0 0) mab_tag zero_A2B = Inl Fail"
    using th [of 3 32 68 0 0 0] by simp
  have 3: "read_tag_mab (mab_sample 3 32 0 32 0 0) mab_tag zero_A2B = Inl Fail"
    using th [of 3 32 0 32 0 0] by simp
  have 4: "read_tag_mab (mab_sample 3 32 0 0 32 0) mab_tag zero_A2B = Inl Fail"
    using th [of 3 32 0 0 32 0] by simp
  have 5: "read_tag_mab (mab_sample 3 32 0 0 0 32) mab_tag zero_A2B = Inl Fail"
    using th [of 3 32 0 0 0 32] by simp
  have 6: "read_tag_mab (mab_sample 2 32 0 0 0 0) mab_tag zero_A2B = Inl Fail"
    using th [of 2 32 0 0 0 0] by simp
  have 7: "case read_tag_mab (mab_sample 3 32 0 0 0 0) mab_tag zero_A2B of
         Inl e \<Rightarrow> False | Inr r \<Rightarrow> input_channels r = 0"
    using th [of 3 32 0 0 0 0] by (simp add: mab_sample_success)
  from 1 2 3 4 5 6 7 show ?thesis
    by (intro conjI)
qed

subsection \<open>Parametric payloads of type 1 and 2\<close>

text \<open>
  Claim C4. For a \<open>para\<close> payload of function type 1 (GAB) or 2 (GABC) that is
  large enough, with \<open>g\<close>, \<open>a\<close>, \<open>b\<close> (and \<open>e\<close>) the 15.16 values decoded
  from its parameters: the curve decoder returns false when \<open>a = 0\<close>; otherwise it
  returns the parametric curve with these values, \<open>d\<close> the float quotient of
  \<open>-b\<close> and \<open>a\<close>, and for type 2 \<open>f = e\<close>. (In the model of floats the two
  zeros are one value.)
\<close>

theorem para_continuity:
  assumes type: "read_big_u32 mem buf = Inr (make_signature CHR ''p'' CHR ''a'' CHR ''r'' CHR ''a'')"
    and ft: "read_big_u16 mem (buf + 8) = Inr ft" "ft = 1 \<or> ft = 2"
    and sz: "sizeof_para_Layout + curve_bytes ! ft \<le> sz"
    and g: "read_big_fixed mem (buf + 12) = Inr g"
    and a: "read_big_fixed mem (buf + 12 + 4) = Inr a"
    and b: "read_big_fixed mem (buf + 12 + 8) = Inr b"
    and e: "read_big_fixed mem (buf + 12 + 12) = Inr e \<or> ft = 1"
  shows "(a = 0 \<longrightarrow> read_curve mem buf sz = Inl Fail)
       \<and> (a \<noteq> 0 \<longrightarrow>
            read_curve mem buf sz
              = Inr (para_curve
                       \<lparr>tf_g = g, tf_a = a, tf_b = b, tf_c = 0, tf_d = f32_div (- b) a,
                        tf_e = (if ft = 2 then e else 0), tf_f = (if ft = 2 then e else 0)\<rparr>,
                     sizeof_para_Layout + curve_bytes ! ft))"
proof -
  from sz have sz4: "\<not> sz < 4" "\<not> sz < sizeof_para_Layout"
    by (simp_all add: sizeof_para_Layout_def)
  have disp: "read_curve mem buf sz = read_curve_para mem buf sz"
    using type sz4 by (simp add: read_curve_def bindE_def)
  from ft(2) show ?thesis
  proof
    assume "ft = 1"
    with ft sz sz4 g a b show ?thesis
      by (simp add: disp read_curve_para_def bindE_def Let_def)
  next
    assume f2: "ft = 2"
    with e have "read_big_fixed mem (buf + 12 + 12) = Inr e" by simp
    with f2 ft sz sz4 g a b show ?thesis
      by (simp add: disp read_curve_para_def bindE_def Let_def)
  qed
qed

lemma para_sample_fixed:
  "read_big_fixed (para_sample ft 0x10000 0x8000 0x4000) 12 = Inr 2"
  "read_big_fixed (para_sample ft 0x10000 0x8000 0x4000) 16 = Inr 1"
  "read_big_fixed (para_sample ft 0x10000 0x8000 0x4000) 20 = Inr (1 / 2)"
  "read_big_fixed (para_sample ft 0x10000 0x8000 0x4000) 24 = Inr (1 / 4)"
  "read_big_fixed (para_sample ft 0 0x8000 0x4000) 12 = Inr 2"
  "read_big_fixed (para_sample ft 0 0x8000 0x4000) 16 = Inr 0"
  "read_big_fixed (para_sample ft 0 0x8000 0x4000) 20 = Inr (1 / 2)"
  "read_big_fixed (para_sample ft 0 0x8000 0x4000) 24 = Inr (1 / 4)"
  by (simp_all add: para_sample_def be16_def be32_def read_defs nth_append f32_defs)

lemma para_sample_head:
  "read_big_u32 (para_sample ft a b e) 0 = Inr (make_signature CHR ''p'' CHR ''a'' CHR ''r'' CHR ''a'')"
  "ft < 256 \<Longrightarrow> read_big_u16 (para_sample ft a b e) 8 = Inr ft"
  by (simp_all add: para_sample_def be16_def read_defs nth_append make_signature_def unat_of_nat)

lemma f32_half_neg: "f32_div (- (1 / 2)) 1 = - (1 / 2)"
  by (simp add: f32_defs)

theorem para_continuity_witness:
  "read_curve (para_sample 1 0x10000 0x8000 0x4000) 0 28
     = Inr (para_curve \<lparr>tf_g = 2, tf_a = 1, tf_b = 1 / 2, tf_c = 0, tf_d = - (1 / 2),
                        tf_e = 0, tf_f = 0\<rparr>, 24)
   \<and> read_curve (para_sample 2 0x10000 0x8000 0x4000) 0 28
     = Inr (para_curve \<lparr>tf_g = 2, tf_a = 1, tf_b = 1 / 2, tf_c = 0, tf_d = - (1 / 2),
                        tf_e = 1 / 4, tf_f = 1 / 4\<rparr>, 28)
   \<and> read_curve (para_sample 1 0 0x8000 0x4000) 0 28 = Inl Fail
   \<and> read_curve (para_sample 2 0 0x8000 0x4000) 0 28 = Inl Fail"
proof -
  have 1: "read_curve (para_sample 1 0x10000 0x8000 0x4000) 0 28
     = Inr (para_curve \<lparr>tf_g = 2, tf_a = 1, tf_b = 1 / 2, tf_c = 0, tf_d = - (1 / 2),
                        tf_e = 0, tf_f = 0\<rparr>, 24)"
    using para_continuity [of "para_sample 1 0x10000 0x8000 0x4000" 0 1 28 2 1 "1 / 2" "1 / 4"]
    by (simp add: para_sample_head para_sample_fixed sizeof_para_Layout_def curve_bytes_def
          f32_half_neg)
  have 2: "read_curve (para_sample 2 0x10000 0x8000 0x4000) 0 28
     = Inr (para_curve \<lparr>tf_g = 2, tf_a = 1, tf_b = 1 / 2, tf_c = 0, tf_d = - (1 / 2),
                        tf_e = 1 / 4, tf_f = 1 / 4\<rparr>, 28)"
    using para_continuity [of "para_sample 2 0x10000 0x8000 0x4000" 0 2 28 2 1 "1 / 2" "1 / 4"]
    by (simp add: para_sample_head para_sample_fixed sizeof_para_Layout_def curve_bytes_def
          f32_half_neg)
  have 3: "read_curve (para_sample 1 0 0x8000 0x4000) 0 28 = Inl Fail"
    using para_continuity [of "para_sample 1 0 0x8000 0x4000" 0 1 28 2 0 "1 / 2" "1 / 4"]
    by (simp add: para_sample_head para_sample_fixed sizeof_para_Layout_def curve_bytes_def)
  have 4: "read_curve (para_sample 2 0 0x8000 0x4000) 0 28 = Inl Fail"
    using para_continuity [of "para_sample 2 0 0x8000 0x4000" 0 2 28 2 0 "1 / 2" "1 / 4"]
    by (simp add: para_sample_head para_sample_fixed sizeof_para_Layout_def curve_bytes_def)
  from 1 2 3 4 show ?thesis by (intro conjI)
qed

end
